theory Spec2Isabelle
  imports Complex_Main
begin

section \<open>Python values and exceptions\<close>

text \<open>
  The program is Python on top of NumPy, SymPy and Tk.  A double is modelled by the
  real number it stands for: the rounding of a result to the nearest double is left
  out.  What rounding cannot explain is modelled where the program depends on it: a
  result too large for a double is an infinity, a result too small is a zero, an
  undefined result is \<open>nan\<close> (section "Doubles" below), and the double that
  \<open>np.linalg.det\<close> returns is a parameter of the functions that test it.  Every
  exception the modelled code can raise is a value of \<open>error\<close>, and a function that
  can raise returns \<open>error + 'a\<close> with \<open>Inl\<close> for the exception.
  The variable \<open>dim\<close> of the source is written \<open>dimn\<close> throughout.
\<close>

datatype error =
    ZeroDivisionError
  | IndexError
  | ValueError
  | TypeError
  | AttributeError
  | UnboundLocalError
  | LinAlgError
  | ShapeError

text \<open>\<open>bindE m f\<close> runs \<open>f\<close> on the value of \<open>m\<close> unless \<open>m\<close> raised.\<close>

definition bindE :: "error + 'a \<Rightarrow> ('a \<Rightarrow> error + 'b) \<Rightarrow> error + 'b" where
  "bindE m f = (case m of Inl e \<Rightarrow> Inl e | Inr x \<Rightarrow> f x)"

text \<open>
  Division of the parsed inputs in the first four steps of \<open>calcRequirements\<close>:
  Python raises \<open>ZeroDivisionError\<close> on a zero divisor.
\<close>

definition py_truediv :: "real \<Rightarrow> real \<Rightarrow> error + real" where
  "py_truediv a b = (if b = 0 then Inl ZeroDivisionError else Inr (a / b))"

section \<open>Doubles\<close>

text \<open>
  The values a double can take beyond the real numbers: the negative zero, the two
  infinities and \<open>nan\<close>.  \<open>Fin 0\<close> is the positive zero.  \<open>round_mag s m\<close> is the
  double for the real number of sign \<open>s\<close> (\<open>True\<close> for negative) and magnitude
  \<open>m\<close>: an infinity from \<open>overflow_at\<close> on, halfway between the largest double and
  \<open>2 ^ 1024\<close>; a zero up to \<open>underflow_at\<close>, half the smallest positive double; and
  the number itself in between, its rounding left out.
\<close>

datatype npfloat = Fin real | NZero | PInf | NInf | NaN

definition overflow_at :: real where
  "overflow_at = 2 ^ 1024 - 2 ^ 970"

definition underflow_at :: real where
  "underflow_at = 1 / 2 ^ 1075"

definition round_mag :: "bool \<Rightarrow> real \<Rightarrow> npfloat" where
  "round_mag s m =
     (if overflow_at \<le> m then (if s then NInf else PInf)
      else if m \<le> underflow_at then (if s then NZero else Fin 0)
      else Fin (if s then - m else m))"

definition rnd :: "real \<Rightarrow> npfloat" where
  "rnd x = round_mag (x < 0) \<bar>x\<bar>"

text \<open>
  \<open>in_range x\<close>: the real number \<open>x\<close> is zero, or a double for it is neither a zero
  nor an infinity.
\<close>

definition in_range :: "real \<Rightarrow> bool" where
  "in_range x = (x = 0 \<or> (underflow_at < \<bar>x\<bar> \<and> \<bar>x\<bar> < overflow_at))"

fun is_nan :: "npfloat \<Rightarrow> bool" where
  "is_nan NaN = True"
| "is_nan x = False"

fun is_inf :: "npfloat \<Rightarrow> bool" where
  "is_inf PInf = True"
| "is_inf NInf = True"
| "is_inf x = False"

fun is_zero :: "npfloat \<Rightarrow> bool" where
  "is_zero (Fin r) = (r = 0)"
| "is_zero NZero = True"
| "is_zero x = False"

fun negative :: "npfloat \<Rightarrow> bool" where
  "negative (Fin r) = (r < 0)"
| "negative NZero = True"
| "negative NInf = True"
| "negative x = False"

fun mag :: "npfloat \<Rightarrow> real" where
  "mag (Fin r) = \<bar>r\<bar>"
| "mag x = 0"

definition signed_inf :: "bool \<Rightarrow> npfloat" where
  "signed_inf s = (if s then NInf else PInf)"

definition signed_zero :: "bool \<Rightarrow> npfloat" where
  "signed_zero s = (if s then NZero else Fin 0)"

text \<open>
  The product and the quotient of two doubles as IEEE 754 defines them.  NumPy and
  the Python float share them, except that Python's \<open>/\<close> raises on a zero divisor.
\<close>

definition np_multiply :: "npfloat \<Rightarrow> npfloat \<Rightarrow> npfloat" where
  "np_multiply x y =
     (if is_nan x \<or> is_nan y then NaN
      else if (is_inf x \<and> is_zero y) \<or> (is_zero x \<and> is_inf y) then NaN
      else if is_inf x \<or> is_inf y then signed_inf (negative x \<noteq> negative y)
      else round_mag (negative x \<noteq> negative y) (mag x * mag y))"

definition np_divide :: "npfloat \<Rightarrow> npfloat \<Rightarrow> npfloat" where
  "np_divide x y =
     (if is_nan x \<or> is_nan y then NaN
      else if (is_inf x \<and> is_inf y) \<or> (is_zero x \<and> is_zero y) then NaN
      else if is_inf x \<or> is_zero y then signed_inf (negative x \<noteq> negative y)
      else if is_inf y then signed_zero (negative x \<noteq> negative y)
      else round_mag (negative x \<noteq> negative y) (mag x / mag y))"

definition float_truediv :: "npfloat \<Rightarrow> npfloat \<Rightarrow> error + npfloat" where
  "float_truediv x y = (if is_zero y then Inl ZeroDivisionError else Inr (np_divide x y))"

text \<open>
  \<open>np_rsub a x\<close> is \<open>a - x\<close> for a finite \<open>a\<close>; the other functions are NumPy's of
  the same name.  The square root, the cosine and the sine of a number in range are
  in range.
\<close>

fun np_rsub :: "real \<Rightarrow> npfloat \<Rightarrow> npfloat" where
  "np_rsub a (Fin v) = rnd (a - v)"
| "np_rsub a NZero = rnd a"
| "np_rsub a PInf = NInf"
| "np_rsub a NInf = PInf"
| "np_rsub a NaN = NaN"

definition np_square :: "npfloat \<Rightarrow> npfloat" where
  "np_square x = np_multiply x x"

fun np_sqrt :: "npfloat \<Rightarrow> npfloat" where
  "np_sqrt (Fin v) = (if v < 0 then NaN else Fin (sqrt v))"
| "np_sqrt NZero = NZero"
| "np_sqrt PInf = PInf"
| "np_sqrt NInf = NaN"
| "np_sqrt NaN = NaN"

fun np_exp :: "npfloat \<Rightarrow> npfloat" where
  "np_exp (Fin v) = rnd (exp v)"
| "np_exp NZero = Fin 1"
| "np_exp PInf = PInf"
| "np_exp NInf = Fin 0"
| "np_exp NaN = NaN"

fun np_cos :: "npfloat \<Rightarrow> npfloat" where
  "np_cos (Fin v) = Fin (cos v)"
| "np_cos NZero = Fin 1"
| "np_cos x = NaN"

fun np_sin :: "npfloat \<Rightarrow> npfloat" where
  "np_sin (Fin v) = Fin (sin v)"
| "np_sin NZero = NZero"
| "np_sin x = NaN"

section \<open>NumPy arrays\<close>

text \<open>
  A two-dimensional array is the list of its rows.  The array operations the program
  calls are modelled with the shape checks NumPy makes: element-wise addition
  broadcasts an axis of length one and raises \<open>ValueError\<close> on any other mismatch,
  \<open>np.matmul\<close> raises \<open>ValueError\<close> unless the inner dimensions agree.  An array
  without rows is the empty list, whatever its number of columns.  \<open>is_mat r c M\<close>
  says that \<open>M\<close> has shape \<open>(r, c)\<close>; \<open>smul\<close>, \<open>madd\<close> and \<open>mmul\<close> are the
  product with a scalar, the sum of two arrays of one shape, and the matrix product.
\<close>

type_synonym mat = "real list list"

definition shape :: "'a list list \<Rightarrow> nat \<times> nat" where
  "shape M = (length M, if M = [] then 0 else length (hd M))"

definition is_mat :: "nat \<Rightarrow> nat \<Rightarrow> 'a list list \<Rightarrow> bool" where
  "is_mat r c M = (length M = r \<and> list_all (\<lambda>row. length row = c) M)"

definition zeros :: "nat \<Rightarrow> nat \<Rightarrow> mat" where
  "zeros r c = replicate r (replicate c 0)"

definition identity :: "nat \<Rightarrow> mat" where
  "identity n = map (\<lambda>i. map (\<lambda>j. if i = j then 1 else 0) [0..<n]) [0..<n]"

definition smul :: "real \<Rightarrow> mat \<Rightarrow> mat" where
  "smul s M = map (map (\<lambda>x. s * x)) M"

definition madd :: "mat \<Rightarrow> mat \<Rightarrow> mat" where
  "madd A B = map2 (map2 (+)) A B"

definition mmul :: "mat \<Rightarrow> mat \<Rightarrow> mat" where
  "mmul A B =
     map (\<lambda>row. map (\<lambda>j. sum_list (map (\<lambda>k. row ! k * B ! k ! j) [0..<length row]))
                     [0..<snd (shape B)]) A"

definition broadcastable :: "nat \<Rightarrow> nat \<Rightarrow> bool" where
  "broadcastable a b = (a = b \<or> a = 1 \<or> b = 1)"

definition np_add :: "mat \<Rightarrow> mat \<Rightarrow> error + mat" where
  "np_add A B =
     (case (shape A, shape B) of
        ((ra, ca), (rb, cb)) \<Rightarrow>
          if broadcastable ra rb \<and> broadcastable ca cb then
            Inr (map (\<lambda>i. map (\<lambda>j. A ! (if ra = 1 then 0 else i) ! (if ca = 1 then 0 else j)
                                    + B ! (if rb = 1 then 0 else i) ! (if cb = 1 then 0 else j))
                               [0..<(if ca = 1 then cb else ca)])
                     [0..<(if ra = 1 then rb else ra)])
          else Inl ValueError)"

definition np_matmul :: "mat \<Rightarrow> mat \<Rightarrow> error + mat" where
  "np_matmul A B =
     (if snd (shape A) = fst (shape B) then Inr (mmul A B) else Inl ValueError)"

text \<open>
  Two operations that the program does not call, used to state what it computes: the
  difference of two arrays of one shape, and the power \<open>F\<^sup>i\<close> by repeated
  multiplication.
\<close>

definition msub :: "mat \<Rightarrow> mat \<Rightarrow> mat" where
  "msub A B = map2 (map2 (-)) A B"

fun mpow :: "mat \<Rightarrow> nat \<Rightarrow> mat" where
  "mpow F 0 = identity (length F)"
| "mpow F (Suc i) = mmul (mpow F i) F"

text \<open>
  Indexing \<open>M[i, j]\<close> with non-negative indices, for reading and for assignment;
  out of range it raises \<open>IndexError\<close>.  \<open>xs[i]\<close> on a Python list likewise.
\<close>

definition getitem :: "'a list \<Rightarrow> nat \<Rightarrow> error + 'a" where
  "getitem xs i = (if i < length xs then Inr (xs ! i) else Inl IndexError)"

definition getitem2 :: "'a list list \<Rightarrow> nat \<Rightarrow> nat \<Rightarrow> error + 'a" where
  "getitem2 M i j =
     (if i < length M \<and> j < length (M ! i) then Inr (M ! i ! j) else Inl IndexError)"

definition setitem2 :: "'a list list \<Rightarrow> nat \<Rightarrow> nat \<Rightarrow> 'a \<Rightarrow> error + 'a list list" where
  "setitem2 M i j v =
     (if i < length M \<and> j < length (M ! i) then Inr (M[i := (M ! i)[j := v]])
      else Inl IndexError)"

text \<open>
  A \<open>for\<close> loop over a range: the body takes the loop variable and the variables
  the loop assigns, and the first exception ends the loop.
\<close>

fun forM :: "nat list \<Rightarrow> (nat \<Rightarrow> 's \<Rightarrow> error + 's) \<Rightarrow> 's \<Rightarrow> error + 's" where
  "forM [] body s = Inr s"
| "forM (i # ks) body s = bindE (body i s) (forM ks body)"

text \<open>
  \<open>det\<close> is the determinant, by expansion along the first row.  The double that
  \<open>np.linalg.det\<close> returns is not the determinant: LAPACK computes it from an LU
  factorisation in double arithmetic, and \<open>checkContr\<close> and \<open>checkObs\<close> test that
  double against zero.  It is a parameter, \<open>npdet\<close>, of the two functions, and taken
  to be finite.  \<open>np.linalg.inv\<close> is modelled by what it computes in exact
  arithmetic, the adjugate over the determinant, and raises \<open>LinAlgError\<close> when the
  determinant is zero; for a matrix that is not invertible NumPy raises it only when
  the factorisation meets a zero pivot.  Both raise \<open>LinAlgError\<close> on an array that
  is not square.
\<close>

definition del_col :: "nat \<Rightarrow> 'a list list \<Rightarrow> 'a list list" where
  "del_col j M = map (\<lambda>row. take j row @ drop (Suc j) row) M"

definition del_row :: "nat \<Rightarrow> 'a list list \<Rightarrow> 'a list list" where
  "del_row i M = take i M @ drop (Suc i) M"

function det :: "mat \<Rightarrow> real" where
  "det [] = 1"
| "det (r # rs) =
     sum_list (map (\<lambda>j. (- 1) ^ j * r ! j * det (del_col j rs)) [0..<length r])"
  by pat_completeness auto
termination
  by (relation "measure length") (auto simp: del_col_def)

definition np_linalg_det :: "(mat \<Rightarrow> real) \<Rightarrow> mat \<Rightarrow> error + real" where
  "np_linalg_det npdet M =
     (if is_mat (length M) (length M) M then Inr (npdet M) else Inl LinAlgError)"

definition cofactor :: "mat \<Rightarrow> nat \<Rightarrow> nat \<Rightarrow> real" where
  "cofactor M i j = (- 1) ^ (i + j) * det (del_col j (del_row i M))"

definition np_linalg_inv :: "mat \<Rightarrow> error + mat" where
  "np_linalg_inv M =
     (if \<not> is_mat (length M) (length M) M then Inl LinAlgError
      else if det M = 0 then Inl LinAlgError
      else Inr (map (\<lambda>i. map (\<lambda>j. cofactor M j i / det M) [0..<length M]) [0..<length M]))"

section \<open>SymPy expressions in one symbol\<close>

text \<open>
  The symbolic expressions of \<open>calcK\<close> are polynomials in the symbol \<open>z\<close>, kept
  expanded: the list of coefficients, the coefficient of \<open>z ^ i\<close> at index \<open>i\<close>.
  \<open>coeff\<close> is \<open>Expr.coeff(z, i)\<close> on an expanded expression, \<open>pdet\<close> is
  \<open>Matrix.det\<close>, by expansion along the first row.
\<close>

definition coeff :: "'a::zero list \<Rightarrow> nat \<Rightarrow> 'a" where
  "coeff p i = (if i < length p then p ! i else 0)"

definition padd :: "'a::comm_ring_1 list \<Rightarrow> 'a list \<Rightarrow> 'a list" where
  "padd p q = map (\<lambda>i. coeff p i + coeff q i) [0..<max (length p) (length q)]"

definition pmul :: "'a::comm_ring_1 list \<Rightarrow> 'a list \<Rightarrow> 'a list" where
  "pmul p q =
     map (\<lambda>i. sum_list (map (\<lambda>j. coeff p j * coeff q (i - j)) [0..<Suc i]))
         [0..<length p + length q - 1]"

function pdet :: "real list list list \<Rightarrow> real list" where
  "pdet [] = [1]"
| "pdet (r # rs) =
     foldr padd (map (\<lambda>j. pmul (pmul [(- 1) ^ j] (r ! j)) (pdet (del_col j rs)))
                     [0..<length r]) []"
  by pat_completeness auto
termination
  by (relation "measure length") (auto simp: del_col_def)

section \<open>value_exchange.py\<close>

text \<open>
  The module holds one \<open>ValueExchange\<close> object; it is passed and returned where the
  source reads and assigns the global.  The attributes for the poles hold whatever
  Python object was stored: the integer \<open>0\<close> at the start and after \<open>clearPoles\<close>, a
  float, or a string.  A float stored for a pole is a result of \<open>calcPoles\<close>, a
  double; a float stored for the sample time is a parsed input.  The attributes
  \<open>sigma\<close> and \<open>wd\<close> of the requirements are left out: no function modelled here
  reads them.
\<close>

text \<open>A model is the sequence \<open>[F, g, c, d]\<close>.\<close>

type_synonym model = "mat \<times> mat \<times> mat \<times> real"

datatype 'a pyscalar = PyInteger int | PyFloat 'a | PyStr string

record ValueExchange =
  ve_z_sigma :: "npfloat pyscalar"
  ve_z_wd :: "npfloat pyscalar"
  ve_T :: "real pyscalar"
  ve_F :: mat
  ve_g :: mat
  ve_c :: mat
  ve_d :: real
  ve_dim :: nat

definition setPoles ::
    "npfloat pyscalar \<Rightarrow> npfloat pyscalar \<Rightarrow> real pyscalar \<Rightarrow> ValueExchange \<Rightarrow> ValueExchange" where
  "setPoles z_sigma z_wd T ve = ve\<lparr>ve_z_sigma := z_sigma, ve_z_wd := z_wd, ve_T := T\<rparr>"

definition getPoles :: "ValueExchange \<Rightarrow> npfloat pyscalar \<times> npfloat pyscalar \<times> real pyscalar" where
  "getPoles ve = (ve_z_sigma ve, ve_z_wd ve, ve_T ve)"

definition setModel :: "mat \<Rightarrow> mat \<Rightarrow> mat \<Rightarrow> real \<Rightarrow> ValueExchange \<Rightarrow> ValueExchange" where
  "setModel F g c d ve = ve\<lparr>ve_F := F, ve_g := g, ve_c := c, ve_d := d\<rparr>"

definition getModel :: "ValueExchange \<Rightarrow> model" where
  "getModel ve = (ve_F ve, ve_g ve, ve_c ve, ve_d ve)"

definition setSize :: "nat \<Rightarrow> ValueExchange \<Rightarrow> ValueExchange" where
  "setSize dimn ve = ve\<lparr>ve_dim := dimn\<rparr>"

definition getSize :: "ValueExchange \<Rightarrow> nat" where
  "getSize ve = ve_dim ve"

section \<open>Entry fields\<close>

text \<open>
  An entry field is modelled by the text it holds; \<open>e.get()\<close> is that text.  The
  entry fields of a matrix are a NumPy array of entries.  Calling \<open>get\<close> on such an
  array raises \<open>AttributeError\<close>, and indexing a single entry with a pair raises
  \<open>TypeError\<close>.  Python's \<open>float\<close> on a string and the text Tk inserts for a number
  are parameters of the functions that use them: \<open>pyfloat\<close>, which is \<open>None\<close> where
  \<open>float\<close> raises \<open>ValueError\<close>, and \<open>fmt\<close>.
\<close>

datatype widget = Entry string | EntryArray "string list list"

definition widget_get :: "widget \<Rightarrow> error + string" where
  "widget_get w = (case w of Entry s \<Rightarrow> Inr s | EntryArray a \<Rightarrow> Inl AttributeError)"

definition entry_at :: "widget \<Rightarrow> nat \<Rightarrow> nat \<Rightarrow> error + string" where
  "entry_at w i j = (case w of Entry s \<Rightarrow> Inl TypeError | EntryArray a \<Rightarrow> getitem2 a i j)"

definition entry_put :: "widget \<Rightarrow> nat \<Rightarrow> nat \<Rightarrow> string \<Rightarrow> error + widget" where
  "entry_put w i j s =
     (case w of
        Entry t \<Rightarrow> Inl TypeError
      | EntryArray a \<Rightarrow> bindE (setitem2 a i j s) (\<lambda>a1. Inr (EntryArray a1)))"

definition py_float :: "(string \<Rightarrow> real option) \<Rightarrow> string \<Rightarrow> error + real" where
  "py_float pyfloat s = (case pyfloat s of None \<Rightarrow> Inl ValueError | Some x \<Rightarrow> Inr x)"

section \<open>requirements.py\<close>

text \<open>
  The seven requirements travel as the sequence
  \<open>(wn, zeta, ts, tr, tp, wd, sigma)\<close>.  \<open>calcRequirements\<close> is split at the last
  \<open>if\<close> of its body: \<open>calcMissing\<close> is the first four \<open>if\<close> statements, on the
  parsed inputs, and \<open>calcRequirements\<close> runs them and then the recomputation.  The
  recomputation is on doubles: \<open>zeta*wn\<close>, \<open>4/sigma\<close> and \<open>1.8/wn\<close> are operations of
  the Python float, \<open>wd\<close> and \<open>tp\<close> are NumPy scalars because of \<open>np.sqrt\<close>.
\<close>

type_synonym requirements = "real \<times> real \<times> real \<times> real \<times> real \<times> real \<times> real"

type_synonym requirements_out =
  "real \<times> real \<times> npfloat \<times> npfloat \<times> npfloat \<times> npfloat \<times> npfloat"

definition calcMissing :: "requirements \<Rightarrow> error + requirements" where
  "calcMissing r =
     (case r of (wn, zeta, ts, tr, tp, wd, sigma) \<Rightarrow>
        bindE (if ts \<noteq> 0 \<and> sigma = 0 then py_truediv 4 ts else Inr sigma) (\<lambda>sigma1.
        bindE (if tp \<noteq> 0 \<and> wd = 0 then py_truediv pi tp else Inr wd) (\<lambda>wd1.
        bindE (if wn = 0 then (if sigma1 \<noteq> 0 then py_truediv sigma1 zeta else Inr wn)
               else Inr wn) (\<lambda>wn1.
        bindE (if zeta = 0 then (if sigma1 \<noteq> 0 then py_truediv sigma1 wn1 else Inr zeta)
               else Inr zeta) (\<lambda>zeta1.
        Inr (wn1, zeta1, ts, tr, tp, wd1, sigma1))))))"

definition calcRequirements :: "requirements \<Rightarrow> error + requirements_out" where
  "calcRequirements r =
     bindE (calcMissing r) (\<lambda>(wn, zeta, ts, tr, tp, wd, sigma).
       if wn \<noteq> 0 \<and> zeta \<noteq> 0 then
         (let sigma2 = np_multiply (Fin zeta) (Fin wn);
              wd2 = np_multiply (Fin wn) (np_sqrt (np_rsub 1 (np_square (Fin zeta))))
          in bindE (float_truediv (Fin 4) sigma2) (\<lambda>ts2.
               (let tp2 = np_divide (Fin pi) wd2
                in bindE (float_truediv (Fin (18 / 10)) (Fin wn)) (\<lambda>tr2.
                     Inr (wn, zeta, ts2, tr2, tp2, wd2, sigma2)))))
       else Inr (wn, zeta, Fin ts, Fin tr, Fin tp, Fin wd, Fin sigma))"

text \<open>
  \<open>recompute_in_range wn zeta\<close>: the values of \<open>wn\<close> and \<open>zeta\<close> and of every
  step of the recomputation are in the range of doubles.
\<close>

definition recompute_in_range :: "real \<Rightarrow> real \<Rightarrow> bool" where
  "recompute_in_range wn zeta =
     (in_range wn \<and> in_range zeta \<and> in_range (zeta * wn) \<and> in_range (zeta * zeta)
      \<and> in_range (1 - zeta * zeta) \<and> in_range (wn * sqrt (1 - zeta * zeta))
      \<and> in_range (4 / (zeta * wn)) \<and> in_range (pi / (wn * sqrt (1 - zeta * zeta)))
      \<and> in_range ((18 / 10) / wn))"

section \<open>poles.py\<close>

text \<open>
  \<open>calcPoles\<close>: the two products \<open>s_sigma*T\<close> and \<open>s_wd*T\<close> are of Python floats,
  the rest is NumPy.
\<close>

definition calcPoles :: "real \<Rightarrow> real \<Rightarrow> real \<Rightarrow> npfloat \<times> npfloat" where
  "calcPoles s_sigma s_wd T =
     (let z_sigma = np_multiply (np_exp (np_multiply (Fin s_sigma) (Fin T)))
                                (np_cos (np_multiply (Fin s_wd) (Fin T)));
          z_wd = np_multiply (np_exp (np_multiply (Fin s_sigma) (Fin T)))
                             (np_sin (np_multiply (Fin s_wd) (Fin T)))
      in (z_sigma, z_wd))"

text \<open>
  The functions behind the buttons of the poles tab.  \<open>z_entries\<close> and \<open>s_entries\<close>
  are Python lists of entries; a function that changes the text of an entry returns
  the list with the new texts.
\<close>

definition readZPoles :: "string list \<Rightarrow> string \<Rightarrow> ValueExchange \<Rightarrow> error + ValueExchange" where
  "readZPoles z_entries e_T ve =
     bindE (getitem z_entries 0) (\<lambda>z_sigma.
     bindE (getitem z_entries 1) (\<lambda>z_wd.
     (let T = e_T in
      Inr (setPoles (PyStr z_sigma) (PyStr z_wd) (PyStr T) ve))))"

definition clearPoles ::
    "string list \<Rightarrow> real pyscalar \<Rightarrow> ValueExchange \<Rightarrow> error + string list \<times> ValueExchange" where
  "clearPoles z_entries T ve =
     bindE (getitem z_entries 0) (\<lambda>e0.
     bindE (getitem z_entries 1) (\<lambda>e1.
     Inr (z_entries[0 := [], 1 := []], setPoles (PyInteger 0) (PyInteger 0) T ve)))"

definition readPoles ::
    "(string \<Rightarrow> real option) \<Rightarrow> string list \<Rightarrow> string \<Rightarrow> error + real \<times> real \<times> real" where
  "readPoles pyfloat s_entries e_T =
     bindE (bindE (getitem s_entries 0) (py_float pyfloat)) (\<lambda>s_sigma.
     bindE (bindE (getitem s_entries 1) (py_float pyfloat)) (\<lambda>s_wd.
     bindE (py_float pyfloat e_T) (\<lambda>T.
     Inr (s_sigma, s_wd, T))))"

definition processPoles ::
    "(string \<Rightarrow> real option) \<Rightarrow> (npfloat \<Rightarrow> string) \<Rightarrow> string list \<Rightarrow> string list \<Rightarrow> string
       \<Rightarrow> ValueExchange \<Rightarrow> error + string list \<times> ValueExchange" where
  "processPoles pyfloat fmt z_entries s_entries e_T ve =
     bindE (readPoles pyfloat s_entries e_T) (\<lambda>(s_sigma, s_wd, T).
     bindE (clearPoles z_entries (PyFloat T) ve) (\<lambda>(z_entries1, ve1).
     (case calcPoles s_sigma s_wd T of (z_sigma, z_wd) \<Rightarrow>
        bindE (getitem z_entries1 0) (\<lambda>e0.
        bindE (getitem z_entries1 1) (\<lambda>e1.
        Inr (z_entries1[0 := fmt z_sigma @ e0, 1 := fmt z_wd @ e1],
             setPoles (PyFloat z_sigma) (PyFloat z_wd) (PyFloat T) ve1))))))"

section \<open>model.py\<close>

text \<open>
  \<open>calcDisc\<close>: the products \<open>A*T\<close>, \<open>0.5*A*T\<close>, \<open>(1/6)*...\<close> and \<open>T*...\<close> scale
  every element (\<open>smul\<close>); the sums are NumPy's \<open>+\<close>.
\<close>

definition calcDisc :: "mat \<times> mat \<times> mat \<times> real \<Rightarrow> real \<Rightarrow> nat \<Rightarrow> error + mat \<times> mat \<times> mat \<times> real" where
  "calcDisc cont_val T dimn =
     (case cont_val of (A, b, c, d) \<Rightarrow>
        (let Im = identity dimn in
         bindE (np_add Im (smul T A)) (\<lambda>F1.
         bindE (np_matmul (smul T A) (smul T A)) (\<lambda>AT2.
         bindE (np_add F1 (smul (1 / 2) AT2)) (\<lambda>F.
         bindE (np_add Im (smul T (smul (1 / 2) A))) (\<lambda>psi1.
         bindE (np_matmul (smul T A) (smul T A)) (\<lambda>AT2'.
         bindE (np_add psi1 (smul (1 / 6) AT2')) (\<lambda>psi.
         bindE (np_matmul psi b) (\<lambda>pb.
         (let g = smul T pb in Inr (F, g, c, d)))))))))))"

text \<open>
  The functions behind the button of the model tab.  \<open>cont_entries\<close> and
  \<open>disc_entries\<close> are Python lists of four widgets.  \<open>np.empty\<close> gives an array of
  unspecified contents; \<open>readCont\<close> and \<open>readDisc\<close> assign every element before
  they return, and the arrays start as zeros here.
\<close>

definition readCont ::
    "(string \<Rightarrow> real option) \<Rightarrow> widget list \<Rightarrow> nat \<Rightarrow> error + mat \<times> mat \<times> mat \<times> real" where
  "readCont pyfloat cont_entries dimn =
     bindE (getitem cont_entries 0) (\<lambda>e_A.
     bindE (getitem cont_entries 1) (\<lambda>e_b.
     bindE (getitem cont_entries 2) (\<lambda>e_c.
     bindE (getitem cont_entries 3) (\<lambda>e_d.
     (let A0 = zeros dimn dimn; b0 = zeros dimn 1; c0 = zeros 1 dimn in
     bindE (bindE (widget_get e_d) (py_float pyfloat)) (\<lambda>d.
     bindE (forM [0..<dimn] (\<lambda>r (A, b, c).
              bindE (bindE (bindE (entry_at e_b r 0) (py_float pyfloat)) (setitem2 b r 0)) (\<lambda>b1.
              bindE (bindE (bindE (entry_at e_c 0 r) (py_float pyfloat)) (setitem2 c 0 r)) (\<lambda>c1.
              bindE (forM [0..<dimn] (\<lambda>col A.
                       bindE (bindE (entry_at e_A r col) (py_float pyfloat)) (setitem2 A r col)) A)
                (\<lambda>A1.
              Inr (A1, b1, c1)))))
            (A0, b0, c0)) (\<lambda>(A, b, c).
     Inr (A, b, c, d))))))))"

definition readDisc ::
    "(string \<Rightarrow> real option) \<Rightarrow> widget list \<Rightarrow> nat \<Rightarrow> error + mat \<times> mat \<times> mat \<times> real" where
  "readDisc pyfloat disc_entries dimn =
     bindE (getitem disc_entries 0) (\<lambda>e_F.
     bindE (getitem disc_entries 1) (\<lambda>e_g.
     bindE (getitem disc_entries 3) (\<lambda>e_c.
     bindE (getitem disc_entries 0) (\<lambda>e_d.
     (let F0 = zeros dimn dimn; g0 = zeros dimn 1; c0 = zeros 1 dimn in
     bindE (bindE (widget_get e_d) (py_float pyfloat)) (\<lambda>d.
     bindE (forM [0..<dimn] (\<lambda>r (F, g, c).
              bindE (bindE (bindE (entry_at e_g r 0) (py_float pyfloat)) (setitem2 g r 0)) (\<lambda>g1.
              bindE (bindE (bindE (entry_at e_c 0 r) (py_float pyfloat)) (setitem2 c 0 r)) (\<lambda>c1.
              bindE (forM [0..<dimn] (\<lambda>col F.
                       bindE (bindE (entry_at e_F r col) (py_float pyfloat)) (setitem2 F r col)) F)
                (\<lambda>F1.
              Inr (F1, g1, c1)))))
            (F0, g0, c0)) (\<lambda>(F, g, c).
     Inr (F, g, c, d))))))))"

definition writeDisc ::
    "(real \<Rightarrow> string) \<Rightarrow> mat \<times> mat \<times> mat \<times> real \<Rightarrow> nat \<Rightarrow> widget list \<Rightarrow> error + widget list" where
  "writeDisc fmt disc_val dimn disc_entries =
     bindE (getitem disc_entries 0) (\<lambda>e_F.
     bindE (getitem disc_entries 1) (\<lambda>e_g.
     (case disc_val of (F, g, c, d) \<Rightarrow>
     bindE (forM [0..<dimn] (\<lambda>r (e_F, e_g).
              bindE (entry_at e_g r 0) (\<lambda>old.
              bindE (getitem2 g r 0) (\<lambda>x.
              bindE (entry_put e_g r 0 (fmt x)) (\<lambda>e_g1.
              bindE (forM [0..<dimn] (\<lambda>col e_F.
                       bindE (entry_at e_F r col) (\<lambda>old.
                       bindE (getitem2 F r col) (\<lambda>x.
                       entry_put e_F r col (fmt x)))) e_F) (\<lambda>e_F1.
              Inr (e_F1, e_g1))))))
            (e_F, e_g)) (\<lambda>(e_F, e_g).
     Inr (disc_entries[0 := e_F, 1 := e_g])))))"

text \<open>
  \<open>calcModel\<close>.  \<open>v\<close> is the value of the radio group: \<open>1\<close> for "Set discrete",
  \<open>2\<close> for "Set continuous".  With any other value \<open>disc_val\<close> is never assigned and
  reading it raises \<open>UnboundLocalError\<close>.  The sample time comes from the poles as it
  was stored; a string there makes \<open>A*T\<close> in \<open>calcDisc\<close> raise \<open>TypeError\<close>.
\<close>

definition as_number :: "real pyscalar \<Rightarrow> error + real" where
  "as_number x =
     (case x of PyInteger i \<Rightarrow> Inr (real_of_int i) | PyFloat r \<Rightarrow> Inr r | PyStr s \<Rightarrow> Inl TypeError)"

definition calcModel ::
    "(string \<Rightarrow> real option) \<Rightarrow> (real \<Rightarrow> string) \<Rightarrow> int \<Rightarrow> widget list \<Rightarrow> widget list \<Rightarrow> nat
       \<Rightarrow> ValueExchange \<Rightarrow> error + widget list \<times> ValueExchange" where
  "calcModel pyfloat fmt v cont_entries disc_entries dimn ve =
     bindE (if v = 2 then
              (case getPoles ve of (z_sigma, z_wd, T) \<Rightarrow>
                 bindE (readCont pyfloat cont_entries dimn) (\<lambda>cont_val.
                 bindE (as_number T) (\<lambda>T1.
                 bindE (calcDisc cont_val T1 dimn) (\<lambda>disc_val.
                 bindE (writeDisc fmt disc_val dimn disc_entries) (\<lambda>disc_entries1.
                 Inr (Some disc_val, disc_entries1))))))
            else Inr (None, disc_entries)) (\<lambda>(disc_val1, disc_entries1).
     bindE (if v = 1 then
              bindE (readDisc pyfloat disc_entries1 dimn) (\<lambda>disc_val. Inr (Some disc_val))
            else Inr disc_val1) (\<lambda>disc_val2.
     (case disc_val2 of
        None \<Rightarrow> Inl UnboundLocalError
      | Some (F, g, c, d) \<Rightarrow> Inr (disc_entries1, setModel F g c d ve))))"

section \<open>results.py\<close>

text \<open>
  What \<open>checkContr\<close> and \<open>checkObs\<close> return in a place is an array or, in the
  branch for a singular matrix, the Python integer \<open>0\<close>.  Both functions print:
  a call yields the lines printed, and then the values returned or the exception.
  The poles are a list of numbers.
\<close>

datatype pyobj = Array mat | PyInt int

text \<open>
  \<open>calcK\<close>.  \<open>char_matrix\<close> is \<open>z*Id - F_sym\<close>, which SymPy refuses with
  \<open>ShapeError\<close> unless \<open>F\<close> is \<open>dim\<close> by \<open>dim\<close>.  \<open>a\<close> and \<open>alpha\<close> are SymPy
  matrices of zeros of which only the first row is ever written (through the flat
  index \<open>dim-1-i\<close>) or read; they are modelled by that row.  The closed-loop
  expression is a product of two factors with complex coefficients, expanded by
  \<open>as_poly\<close>; storing a SymPy number into the float array \<open>k_c\<close> raises \<open>TypeError\<close>
  if it has an imaginary part.  All the indices computed by subtraction are
  non-negative where they are used.  The model is of \<open>dim\<close> up to \<open>3\<close>: from \<open>4\<close> on
  SymPy may return the determinant as a product that is not expanded, and \<open>coeff\<close>
  then gives other values.
\<close>

definition char_matrix :: "mat \<Rightarrow> nat \<Rightarrow> error + real list list list" where
  "char_matrix F dimn =
     (if is_mat dimn dimn F then
        Inr (map (\<lambda>i. map (\<lambda>j. if i = j then [- (F ! i ! j), 1] else [- (F ! i ! j)])
                          [0..<dimn]) [0..<dimn])
      else Inl ShapeError)"

definition to_float :: "complex \<Rightarrow> error + real" where
  "to_float x = (if Im x = 0 then Inr (Re x) else Inl TypeError)"

definition calcK :: "mat \<Rightarrow> real list \<Rightarrow> mat \<Rightarrow> nat \<Rightarrow> error + mat \<times> mat \<times> mat" where
  "calcK F poles U dimn =
     bindE (getitem poles 0) (\<lambda>z_sigma.
     bindE (getitem poles 1) (\<lambda>z_wd.
     (let k_c0 = zeros 1 dimn;
          U_c0 = zeros dimn dimn;
          a0 = replicate dimn (0 :: complex);
          alpha0 = replicate dimn (0 :: real)
      in
     bindE (char_matrix F dimn) (\<lambda>temp.
     (let ol_eqn = pdet temp;
          cl_eqn = pmul [- complex_of_real z_sigma - \<i> * complex_of_real z_wd, 1]
                        [- complex_of_real z_sigma + \<i> * complex_of_real z_wd, 1]
      in
     bindE (forM [0..<dimn] (\<lambda>i (a, alpha, k_c).
              (let a1 = a[dimn - 1 - i := coeff cl_eqn i];
                   alpha1 = alpha[dimn - 1 - i := coeff ol_eqn i]
               in
               bindE (to_float (a1 ! (dimn - 1 - i) - complex_of_real (alpha1 ! (dimn - 1 - i))))
                 (\<lambda>v.
               bindE (setitem2 k_c 0 i v) (\<lambda>k_c1.
               Inr (a1, alpha1, k_c1)))))
            (a0, alpha0, k_c0)) (\<lambda>(a, alpha, k_c).
     bindE (forM [0..<dimn] (\<lambda>i U_c.
              forM [0..<dimn] (\<lambda>j U_c.
                bindE (if j < dimn - i - 1 then setitem2 U_c i j (alpha ! (dimn - 2 - j - i))
                       else Inr U_c) (\<lambda>U_c1.
                if j = dimn - i - 1 then setitem2 U_c1 i j 1 else Inr U_c1)) U_c) U_c0)
       (\<lambda>U_c.
     bindE (np_matmul U U_c) (\<lambda>P.
     bindE (np_linalg_inv P) (\<lambda>Pinv.
     bindE (np_matmul k_c Pinv) (\<lambda>k.
     Inr (k, k_c, P)))))))))))"

text \<open>
  \<open>buildU\<close> is the part of \<open>checkContr\<close> that fills the controllability matrix,
  up to the call of \<open>np.linalg.det\<close>; \<open>checkContr\<close> is the whole function.
\<close>

definition buildU :: "mat \<Rightarrow> mat \<Rightarrow> nat \<Rightarrow> error + mat" where
  "buildU F g dimn =
     (let U0 = zeros dimn dimn in
      bindE (forM [0..<dimn] (\<lambda>j U. bindE (getitem2 g j 0) (\<lambda>v. setitem2 U j 0 v)) U0)
        (\<lambda>U1.
      forM [1..<dimn] (\<lambda>i U.
        bindE (forM [1..<i] (\<lambda>j F_new. np_matmul F_new F) F) (\<lambda>F_new.
        bindE (np_matmul F_new g) (\<lambda>temp.
        forM [0..<dimn] (\<lambda>j U. bindE (getitem2 temp j 0) (\<lambda>v. setitem2 U j i v)) U)))
        U1))"

definition checkContr ::
    "(mat \<Rightarrow> real) \<Rightarrow> model \<Rightarrow> real list \<Rightarrow> nat
       \<Rightarrow> string list \<times> (error + pyobj \<times> pyobj \<times> pyobj \<times> real)" where
  "checkContr npdet model poles dimn =
     (case model of (F, g, c, d) \<Rightarrow>
        (case buildU F g dimn of
           Inl e \<Rightarrow> ([], Inl e)
         | Inr U \<Rightarrow>
             (case np_linalg_det npdet U of
                Inl e \<Rightarrow> ([], Inl e)
              | Inr detU \<Rightarrow>
                  (if \<not> (detU = 0) then
                     (case calcK F poles U dimn of
                        Inl e \<Rightarrow> ([], Inl e)
                      | Inr (k, k_c, P) \<Rightarrow> ([], Inr (Array k, Array k_c, Array P, detU)))
                   else
                     ([''system not controlable''],
                      Inr (PyInt 0, PyInt 0, PyInt 0, detU))))))"

text \<open>
  \<open>calcM\<close> reads the four places of the model and the two of \<open>poles\<close>, prints, and
  returns two fixed arrays.
\<close>

definition calcM :: "model \<Rightarrow> real list \<Rightarrow> mat \<Rightarrow> string list \<times> (error + mat \<times> mat)" where
  "calcM model poles V =
     (case model of (F, g, c, d) \<Rightarrow>
        (case bindE (getitem poles 0) (\<lambda>z_sigma. getitem poles 1) of
           Inl e \<Rightarrow> ([], Inl e)
         | Inr z_wd \<Rightarrow> ([''function not yet implemented''], Inr ([[1], [1]], [[2], [2]]))))"

text \<open>
  \<open>buildV\<close> is the part of \<open>checkObs\<close> that fills the observability matrix.  In
  the branch for a singular matrix \<open>checkObs\<close> prints and then unpacks the three
  elements of \<open>[0, 0, 0]\<close> into the two targets \<open>[mc, mp]\<close>, which raises
  \<open>ValueError\<close>.
\<close>

definition buildV :: "mat \<Rightarrow> mat \<Rightarrow> nat \<Rightarrow> error + mat" where
  "buildV F c dimn =
     (let V0 = zeros dimn dimn in
      bindE (forM [0..<dimn] (\<lambda>j V. bindE (getitem2 c 0 j) (\<lambda>v. setitem2 V 0 j v)) V0)
        (\<lambda>V1.
      forM [1..<dimn] (\<lambda>i V.
        bindE (forM [1..<i] (\<lambda>j F_new. np_matmul F_new F) F) (\<lambda>F_new.
        bindE (np_matmul c F_new) (\<lambda>temp.
        forM [0..<dimn] (\<lambda>j V. bindE (getitem2 temp 0 j) (\<lambda>v. setitem2 V i j v)) V)))
        V1))"

definition checkObs ::
    "(mat \<Rightarrow> real) \<Rightarrow> model \<Rightarrow> real list \<Rightarrow> nat
       \<Rightarrow> string list \<times> (error + pyobj \<times> pyobj \<times> real)" where
  "checkObs npdet model poles dimn =
     (case model of (F, g, c, d) \<Rightarrow>
        (case buildV F c dimn of
           Inl e \<Rightarrow> ([], Inl e)
         | Inr V \<Rightarrow>
             (case np_linalg_det npdet V of
                Inl e \<Rightarrow> ([], Inl e)
              | Inr detV \<Rightarrow>
                  (if \<not> (detV = 0) then
                     (case calcM model poles V of
                        (out, Inl e) \<Rightarrow> (out, Inl e)
                      | (out, Inr (mc, mp)) \<Rightarrow> (out, Inr (Array mc, Array mp, detV)))
                   else ([''system not observable''], Inl ValueError)))))"

section \<open>Verified properties\<close>

subsection \<open>Auxiliary facts\<close>

lemma bindE_simps [simp]:
  "bindE (Inl e) f = Inl e"
  "bindE (Inr x) f = f x"
  by (simp_all add: bindE_def)

lemma is_mat_nth: "is_mat r c M \<Longrightarrow> i < r \<Longrightarrow> length (M ! i) = c"
  by (auto simp: is_mat_def list_all_length)

lemma is_mat_length: "is_mat r c M \<Longrightarrow> length M = r"
  by (simp add: is_mat_def)

lemma is_mat_shape: "is_mat r c M \<Longrightarrow> 0 < r \<Longrightarrow> shape M = (r, c)"
  by (cases M) (auto simp: is_mat_def shape_def)

lemma is_mat_0: "is_mat 0 c M \<longleftrightarrow> M = []"
  by (auto simp: is_mat_def)

lemma is_mat_identity: "is_mat n n (identity n)"
  by (simp add: is_mat_def identity_def list_all_length)

lemma is_mat_zeros: "is_mat r c (zeros r c)"
  by (simp add: is_mat_def zeros_def list_all_length)

lemma is_mat_smul: "is_mat r c M \<Longrightarrow> is_mat r c (smul s M)"
  by (simp add: is_mat_def smul_def list_all_length)

lemma is_mat_madd: "is_mat r c A \<Longrightarrow> is_mat r c B \<Longrightarrow> is_mat r c (madd A B)"
  by (simp add: is_mat_def madd_def list_all_length)

lemma is_mat_mmul: "is_mat r k A \<Longrightarrow> is_mat k c B \<Longrightarrow> 0 < k \<Longrightarrow> is_mat r c (mmul A B)"
  by (cases B) (auto simp: is_mat_def mmul_def shape_def list_all_length)

lemma np_add_same:
  assumes "is_mat r c A" and "is_mat r c B" and "0 < r"
  shows "np_add A B = Inr (madd A B)"
proof -
  have sh: "shape A = (r, c)" "shape B = (r, c)"
    using assms by (simp_all add: is_mat_shape)
  have "map (\<lambda>i. map (\<lambda>j. A ! (if r = 1 then 0 else i) ! (if c = 1 then 0 else j)
                         + B ! (if r = 1 then 0 else i) ! (if c = 1 then 0 else j))
                  [0..<(if c = 1 then c else c)])
            [0..<(if r = 1 then r else r)] = madd A B"
    using assms by (intro nth_equalityI) (auto simp: madd_def is_mat_def list_all_length)
  then show ?thesis
    by (simp add: np_add_def sh broadcastable_def)
qed

lemma np_matmul_ok:
  assumes "is_mat r k A" and "is_mat k c B" and "0 < r" and "0 < k"
  shows "np_matmul A B = Inr (mmul A B)"
  using assms by (simp add: np_matmul_def is_mat_shape)

lemma two_sqrt_three_quarters: "2 * sqrt (1 - (1 / 2)\<^sup>2) = sqrt 3"
proof -
  have "2 * sqrt (1 - (1 / 2)\<^sup>2) = sqrt 4 * sqrt (3 / 4)"
    by (simp add: power2_eq_square)
  also have "\<dots> = sqrt (4 * (3 / 4))"
    by (simp only: real_sqrt_mult)
  finally show ?thesis by simp
qed

lemma calcMissing_example:
  "calcMissing (2, 1 / 2, 0, 0, 0, 0, 0) = Inr (2, 1 / 2, 0, 0, 0, 0, 0)"
  by (simp add: calcMissing_def)

lemma forM_append: "forM (xs @ ys) body s = bindE (forM xs body s) (forM ys body)"
  by (induction xs arbitrary: s) (auto simp: bindE_def split: sum.splits)

lemma bindE_forM_Nil: "bindE m (forM [] body) = m"
  by (cases m) simp_all

lemma forM_snoc: "forM (xs @ [x]) body s = bindE (forM xs body s) (body x)"
  by (cases "forM xs body s") (simp_all add: forM_append bindE_forM_Nil)

lemma forM_invariant:
  assumes "\<And>i s s'. P s \<Longrightarrow> body i s = Inr s' \<Longrightarrow> P s'"
    and "P s" and "forM xs body s = Inr s'"
  shows "P s'"
  using assms(2,3)
proof (induction xs arbitrary: s)
  case Nil
  then show ?case by simp
next
  case (Cons x xs)
  then show ?case
    by (cases "body x s") (auto intro: assms(1))
qed

lemma is_mat_update:
  "is_mat r c M \<Longrightarrow> j < r \<Longrightarrow> is_mat r c (M[j := (M ! j)[i := v]])"
  by (auto simp: is_mat_def list_all_length nth_list_update)

lemma setitem2_is_mat:
  "is_mat r c M \<Longrightarrow> setitem2 M i j v = Inr M' \<Longrightarrow> is_mat r c M'"
  by (auto simp: setitem2_def is_mat_def list_all_length nth_list_update split: if_splits)

lemma copy_loop_is_mat:
  assumes "is_mat r c M"
    and "forM ks (\<lambda>j M. bindE (src j) (\<lambda>v. setitem2 M (row j) (col j) v)) M = Inr M'"
  shows "is_mat r c M'"
proof (rule forM_invariant [where P="is_mat r c", OF _ assms])
  fix i s s'
  assume "is_mat r c s" and "bindE (src i) (\<lambda>v. setitem2 s (row i) (col i) v) = Inr s'"
  then show "is_mat r c s'"
    by (cases "src i") (auto dest: setitem2_is_mat)
qed

lemma set_column_loop:
  assumes U: "is_mat n n U" and t: "is_mat n 1 t" and i: "i < n" and m: "m \<le> n"
  shows "\<exists>U'. forM [0..<m] (\<lambda>j U. bindE (getitem2 t j 0) (\<lambda>v. setitem2 U j i v)) U = Inr U'
           \<and> is_mat n n U'
           \<and> (\<forall>j<n. \<forall>l<n. U' ! j ! l = (if l = i \<and> j < m then t ! j ! 0 else U ! j ! l))"
  using m
proof (induction m)
  case 0
  then show ?case using U by simp
next
  case (Suc m)
  then obtain U' where U': "forM [0..<m] (\<lambda>j U. bindE (getitem2 t j 0) (\<lambda>v. setitem2 U j i v)) U = Inr U'"
    "is_mat n n U'" "\<forall>j<n. \<forall>l<n. U' ! j ! l = (if l = i \<and> j < m then t ! j ! 0 else U ! j ! l)"
    by auto
  have mn: "m < n" using Suc.prems by simp
  have g: "getitem2 t m 0 = Inr (t ! m ! 0)"
    using t mn by (simp add: getitem2_def is_mat_def list_all_length)
  have s: "setitem2 U' m i (t ! m ! 0) = Inr (U'[m := (U' ! m)[i := t ! m ! 0]])"
    using U'(2) mn i by (simp add: setitem2_def is_mat_def list_all_length)
  have "forM [0..<Suc m] (\<lambda>j U. bindE (getitem2 t j 0) (\<lambda>v. setitem2 U j i v)) U
        = Inr (U'[m := (U' ! m)[i := t ! m ! 0]])"
    by (simp add: forM_snoc U'(1) g s)
  moreover have "is_mat n n (U'[m := (U' ! m)[i := t ! m ! 0]])"
    using U'(2) mn by (rule is_mat_update)
  moreover have "\<forall>j<n. \<forall>l<n. (U'[m := (U' ! m)[i := t ! m ! 0]]) ! j ! l
                  = (if l = i \<and> j < Suc m then t ! j ! 0 else U ! j ! l)"
    using U'(2,3) mn i
    by (auto simp: nth_list_update is_mat_def list_all_length less_Suc_eq)
  ultimately show ?case by blast
qed

lemma sum_list_delta:
  fixes f :: "nat \<Rightarrow> real"
  assumes "i < n"
  shows "sum_list (map (\<lambda>l. (if i = l then 1 else 0) * f l) [0..<n]) = f i"
proof -
  have "sum_list (map (\<lambda>l. (if i = l then 1 else 0) * f l) [0..<n])
        = (\<Sum>l\<in>{0..<n}. if i = l then f l else 0)"
    by (simp add: interv_sum_list_conv_sum_set_nat if_distrib [where f="\<lambda>x. x * _"] cong: if_cong)
  also have "\<dots> = f i"
    using assms by simp
  finally show ?thesis .
qed

lemma mmul_identity_left:
  assumes B: "is_mat n c B" and n: "0 < n"
  shows "mmul (identity n) B = B"
proof (rule nth_equalityI)
  show "length (mmul (identity n) B) = length B"
    using B by (simp add: mmul_def identity_def is_mat_def)
next
  fix i assume "i < length (mmul (identity n) B)"
  then have i: "i < n" by (simp add: mmul_def identity_def)
  have sh: "snd (shape B) = c" using B n by (simp add: is_mat_shape)
  have row: "identity n ! i = map (\<lambda>j. if i = j then 1 else 0) [0..<n]"
    using i by (simp add: identity_def)
  show "mmul (identity n) B ! i = B ! i"
  proof (rule nth_equalityI)
    show "length (mmul (identity n) B ! i) = length (B ! i)"
      using i B sh by (simp add: mmul_def identity_def is_mat_nth)
  next
    fix j assume "j < length (mmul (identity n) B ! i)"
    then have j: "j < c" using i sh by (simp add: mmul_def identity_def)
    have "mmul (identity n) B ! i ! j
          = sum_list (map (\<lambda>l. map (\<lambda>x. if i = x then 1 else 0) [0..<n] ! l * B ! l ! j) [0..<n])"
      using i j sh by (simp add: mmul_def identity_def)
    also have "\<dots> = sum_list (map (\<lambda>l. (if i = l then 1 else 0) * B ! l ! j) [0..<n])"
      by (rule arg_cong [where f=sum_list], rule map_cong) simp_all
    also have "\<dots> = B ! i ! j"
      using i by (rule sum_list_delta)
    finally show "mmul (identity n) B ! i ! j = B ! i ! j" .
  qed
qed

lemma is_mat_mpow: "is_mat n n F \<Longrightarrow> 0 < n \<Longrightarrow> is_mat n n (mpow F i)"
  by (induction i) (simp_all add: is_mat_identity is_mat_length is_mat_mmul)

lemma power_loop:
  assumes F: "is_mat n n F" and n: "0 < n"
  shows "forM [1..<Suc i] (\<lambda>j F_new. np_matmul F_new F) F = Inr (mpow F (Suc i))"
proof (induction i)
  case 0
  show ?case using F n by (simp add: is_mat_length mmul_identity_left)
next
  case (Suc i)
  have "np_matmul (mpow F (Suc i)) F = Inr (mmul (mpow F (Suc i)) F)"
    using is_mat_mpow [OF F n] F n n by (rule np_matmul_ok)
  then show ?case
    using Suc by (simp add: forM_snoc)
qed

lemma column_step:
  assumes F: "is_mat n n F" and g: "is_mat n 1 g" and U: "is_mat n n U"
    and i: "1 \<le> i" "i < n"
  shows "\<exists>U'. bindE (forM [1..<i] (\<lambda>j F_new. np_matmul F_new F) F) (\<lambda>F_new.
               bindE (np_matmul F_new g) (\<lambda>temp.
               forM [0..<n] (\<lambda>j U. bindE (getitem2 temp j 0) (\<lambda>v. setitem2 U j i v)) U)) = Inr U'
           \<and> is_mat n n U'
           \<and> (\<forall>j<n. \<forall>l<n. U' ! j ! l = (if l = i then mmul (mpow F i) g ! j ! 0 else U ! j ! l))"
proof -
  have n: "0 < n" using i by simp
  obtain i' where i': "i = Suc i'" using i(1) by (cases i) simp_all
  have p: "forM [1..<i] (\<lambda>j F_new. np_matmul F_new F) F = Inr (mpow F i)"
    unfolding i' using F n by (rule power_loop)
  have P: "is_mat n n (mpow F i)" using F n by (rule is_mat_mpow)
  have m: "np_matmul (mpow F i) g = Inr (mmul (mpow F i) g)"
    using P g n n by (rule np_matmul_ok)
  have t: "is_mat n 1 (mmul (mpow F i) g)"
    using P g n by (rule is_mat_mmul)
  show ?thesis
    unfolding p m bindE_simps
    using set_column_loop [OF U t i(2) order_refl] by simp
qed

lemma columns_loop:
  assumes F: "is_mat n n F" and g: "is_mat n 1 g" and U: "is_mat n n U" and m: "m \<le> n"
  shows "\<exists>U'. forM [1..<m] (\<lambda>i U.
               bindE (forM [1..<i] (\<lambda>j F_new. np_matmul F_new F) F) (\<lambda>F_new.
               bindE (np_matmul F_new g) (\<lambda>temp.
               forM [0..<n] (\<lambda>j U. bindE (getitem2 temp j 0) (\<lambda>v. setitem2 U j i v)) U))) U = Inr U'
           \<and> is_mat n n U'
           \<and> (\<forall>j<n. \<forall>l<n. U' ! j ! l =
                 (if 1 \<le> l \<and> l < m then mmul (mpow F l) g ! j ! 0 else U ! j ! l))"
  using m
proof (induction m)
  case 0
  then show ?case using U by simp
next
  case (Suc m)
  show ?case
  proof (cases "m = 0")
    case True
    then show ?thesis using U by simp
  next
    case False
    let ?body = "\<lambda>i U.
               bindE (forM [1..<i] (\<lambda>j F_new. np_matmul F_new F) F) (\<lambda>F_new.
               bindE (np_matmul F_new g) (\<lambda>temp.
               forM [0..<n] (\<lambda>j U. bindE (getitem2 temp j 0) (\<lambda>v. setitem2 U j i v)) U))"
    from Suc obtain U1 where U1: "forM [1..<m] ?body U = Inr U1" "is_mat n n U1"
      "\<forall>j<n. \<forall>l<n. U1 ! j ! l = (if 1 \<le> l \<and> l < m then mmul (mpow F l) g ! j ! 0 else U ! j ! l)"
      by auto
    have m1: "1 \<le> m" "m < n" using False Suc.prems by simp_all
    from column_step [OF F g U1(2) m1]
    obtain U2 where U2: "?body m U1 = Inr U2" "is_mat n n U2"
      "\<forall>j<n. \<forall>l<n. U2 ! j ! l = (if l = m then mmul (mpow F m) g ! j ! 0 else U1 ! j ! l)"
      by blast
    have "forM [1..<Suc m] ?body U = Inr U2"
      using m1(1) U1(1) U2(1) by (simp add: forM_snoc)
    moreover have "\<forall>j<n. \<forall>l<n. U2 ! j ! l =
                 (if 1 \<le> l \<and> l < Suc m then mmul (mpow F l) g ! j ! 0 else U ! j ! l)"
      using U1(3) U2(3) m1 by (auto simp: less_Suc_eq)
    ultimately show ?thesis using U2(2) by blast
  qed
qed

lemma buildU_columns_general:
  assumes F: "is_mat n n F" and g: "is_mat n 1 g"
  shows "\<exists>U. buildU F g n = Inr U \<and> is_mat n n U
           \<and> (\<forall>j<n. U ! j ! 0 = g ! j ! 0)
           \<and> (\<forall>i<n. \<forall>j<n. U ! j ! i = mmul (mpow F i) g ! j ! 0)"
proof -
  from set_column_loop [OF is_mat_zeros g _ order_refl, of 0]
  obtain U1 where U1: "0 < n \<Longrightarrow> forM [0..<n] (\<lambda>j U. bindE (getitem2 g j 0) (\<lambda>v. setitem2 U j 0 v)) (zeros n n) = Inr U1"
    "0 < n \<Longrightarrow> is_mat n n U1"
    "0 < n \<Longrightarrow> \<forall>j<n. \<forall>l<n. U1 ! j ! l = (if l = 0 then g ! j ! 0 else zeros n n ! j ! l)"
    by (cases "0 < n") auto
  show ?thesis
  proof (cases "n = 0")
    case True
    then show ?thesis by (simp add: buildU_def zeros_def is_mat_def)
  next
    case False
    then have n: "0 < n" by simp
    from columns_loop [OF F g U1(2) [OF n] order_refl]
    obtain U2 where U2: "forM [1..<n] (\<lambda>i U.
               bindE (forM [1..<i] (\<lambda>j F_new. np_matmul F_new F) F) (\<lambda>F_new.
               bindE (np_matmul F_new g) (\<lambda>temp.
               forM [0..<n] (\<lambda>j U. bindE (getitem2 temp j 0) (\<lambda>v. setitem2 U j i v)) U))) U1 = Inr U2"
      "is_mat n n U2"
      "\<forall>j<n. \<forall>l<n. U2 ! j ! l = (if 1 \<le> l \<and> l < n then mmul (mpow F l) g ! j ! 0 else U1 ! j ! l)"
      by blast
    have b: "buildU F g n = Inr U2"
      using U1(1) [OF n] U2(1) by (simp add: buildU_def)
    have c0: "\<forall>j<n. U2 ! j ! 0 = g ! j ! 0"
      using U2(3) U1(3) [OF n] n by simp
    have "mmul (mpow F 0) g = g"
      using g n F by (simp add: is_mat_length mmul_identity_left)
    then have "\<forall>i<n. \<forall>j<n. U2 ! j ! i = mmul (mpow F i) g ! j ! 0"
      using U2(3) c0 by (metis One_nat_def Suc_leI not_gr_zero)
    then show ?thesis using b U2(2) c0 by blast
  qed
qed

lemma buildU_is_mat:
  assumes "buildU F g n = Inr U"
  shows "is_mat n n U"
proof -
  from assms obtain U1 where
    U1: "forM [0..<n] (\<lambda>j U. bindE (getitem2 g j 0) (\<lambda>v. setitem2 U j 0 v)) (zeros n n) = Inr U1"
    and U: "forM [1..<n] (\<lambda>i U.
        bindE (forM [1..<i] (\<lambda>j F_new. np_matmul F_new F) F) (\<lambda>F_new.
        bindE (np_matmul F_new g) (\<lambda>temp.
        forM [0..<n] (\<lambda>j U. bindE (getitem2 temp j 0) (\<lambda>v. setitem2 U j i v)) U))) U1 = Inr U"
    by (auto simp: buildU_def Let_def bindE_def split: sum.splits)
  have 1: "is_mat n n U1"
    using is_mat_zeros U1 by (rule copy_loop_is_mat [where row="\<lambda>j. j" and col="\<lambda>j. 0"])
  show ?thesis
  proof (rule forM_invariant [where P="is_mat n n", OF _ 1 U])
    fix i s s'
    assume s: "is_mat n n s"
      and "bindE (forM [1..<i] (\<lambda>j F_new. np_matmul F_new F) F) (\<lambda>F_new.
        bindE (np_matmul F_new g) (\<lambda>temp.
        forM [0..<n] (\<lambda>j U. bindE (getitem2 temp j 0) (\<lambda>v. setitem2 U j i v)) s)) = Inr s'"
    then obtain temp where
      "forM [0..<n] (\<lambda>j U. bindE (getitem2 temp j 0) (\<lambda>v. setitem2 U j i v)) s = Inr s'"
      by (auto simp: bindE_def split: sum.splits)
    with s show "is_mat n n s'"
      by (rule copy_loop_is_mat [where row="\<lambda>j. j" and col="\<lambda>j. i"])
  qed
qed

lemma buildV_is_mat:
  assumes "buildV F c n = Inr V"
  shows "is_mat n n V"
proof -
  from assms obtain V1 where
    V1: "forM [0..<n] (\<lambda>j V. bindE (getitem2 c 0 j) (\<lambda>v. setitem2 V 0 j v)) (zeros n n) = Inr V1"
    and V: "forM [1..<n] (\<lambda>i V.
        bindE (forM [1..<i] (\<lambda>j F_new. np_matmul F_new F) F) (\<lambda>F_new.
        bindE (np_matmul c F_new) (\<lambda>temp.
        forM [0..<n] (\<lambda>j V. bindE (getitem2 temp 0 j) (\<lambda>v. setitem2 V i j v)) V))) V1 = Inr V"
    by (auto simp: buildV_def Let_def bindE_def split: sum.splits)
  have 1: "is_mat n n V1"
    using is_mat_zeros V1 by (rule copy_loop_is_mat [where row="\<lambda>j. 0" and col="\<lambda>j. j"])
  show ?thesis
  proof (rule forM_invariant [where P="is_mat n n", OF _ 1 V])
    fix i s s'
    assume s: "is_mat n n s"
      and "bindE (forM [1..<i] (\<lambda>j F_new. np_matmul F_new F) F) (\<lambda>F_new.
        bindE (np_matmul c F_new) (\<lambda>temp.
        forM [0..<n] (\<lambda>j V. bindE (getitem2 temp 0 j) (\<lambda>v. setitem2 V i j v)) s)) = Inr s'"
    then obtain temp where
      "forM [0..<n] (\<lambda>j V. bindE (getitem2 temp 0 j) (\<lambda>v. setitem2 V i j v)) s = Inr s'"
      by (auto simp: bindE_def split: sum.splits)
    with s show "is_mat n n s'"
      by (rule copy_loop_is_mat [where row="\<lambda>j. i" and col="\<lambda>j. j"])
  qed
qed

lemma np_linalg_det_square: "is_mat n n M \<Longrightarrow> np_linalg_det npdet M = Inr (npdet M)"
  by (simp add: np_linalg_det_def is_mat_def)

lemma upt2: "[0..<2] = [0, 1]" "[1..<2] = [1]" "[1..<1] = []" "[0..<1] = [0]"
  by (simp_all add: upt_conv_Cons)

lemma pdet_2x2:
  "pdet [[[a, 1], [b]], [[c], [d, 1]]] = [a * d - b * c, a + d, 1]"
  by (simp add: del_col_def padd_def pmul_def coeff_def upt_conv_Cons)

lemma pmul_monic_linear:
  "pmul [p, 1] [q, 1] = [p * q, p + q, 1]"
  by (simp add: pmul_def coeff_def upt_conv_Cons)

lemma det_2x2: "det [[a, b], [c, d]] = a * d - b * c"
  by (simp add: del_col_def)

lemma inv_2x2:
  "a * d - b * c \<noteq> 0 \<Longrightarrow>
   np_linalg_inv [[a, b], [c, d]] =
     Inr [[d / (a * d - b * c), - b / (a * d - b * c)],
          [- c / (a * d - b * c), a / (a * d - b * c)]]"
  by (simp add: np_linalg_inv_def is_mat_def det_2x2 cofactor_def del_col_def del_row_def upt2)

lemma mat_2x2: "is_mat 2 2 M \<Longrightarrow> \<exists>a b c d. M = [[a, b], [c, d]]"
  by (auto simp: is_mat_def numeral_2_eq_2 length_Suc_conv)

lemma mat_2x1: "is_mat 2 1 M \<Longrightarrow> \<exists>a b. M = [[a], [b]]"
  by (auto simp: is_mat_def numeral_2_eq_2 length_Suc_conv)

lemma buildU_2x2:
  "buildU [[f00, f01], [f10, f11]] [[g0], [g1]] 2 =
     Inr [[g0, f00 * g0 + f01 * g1], [g1, f10 * g0 + f11 * g1]]"
  by (simp add: buildU_def zeros_def upt2 getitem2_def setitem2_def np_matmul_def shape_def
      mmul_def numeral_2_eq_2)

lemma calcK_2x2:
  fixes f00 f01 f10 f11 u00 u01 u10 u11 zs zw :: real
  defines "al \<equiv> - f00 - f11"
  defines "kc0 \<equiv> zs * zs + zw * zw - (f00 * f11 - f01 * f10)"
  defines "kc1 \<equiv> - (2 * zs) - al"
  defines "D \<equiv> u01 * u10 - u00 * u11"
  assumes "u00 * u11 - u01 * u10 \<noteq> 0"
  shows "calcK [[f00, f01], [f10, f11]] [zs, zw] [[u00, u01], [u10, u11]] 2 =
           Inr ([[(kc0 * u10 - kc1 * (u10 * al + u11)) / D,
                  (kc1 * (u00 * al + u01) - kc0 * u00) / D]],
                [[kc0, kc1]],
                [[u00 * al + u01, u00], [u10 * al + u11, u10]])"
proof -
  have D: "D \<noteq> 0"
    using assms by (simp add: D_def)
  have dP: "(u00 * al + u01) * u10 - u00 * (u10 * al + u11) = D"
    by (simp add: D_def algebra_simps)
  have inv: "np_linalg_inv [[u00 * al + u01, u00], [u10 * al + u11, u10]] =
               Inr [[u10 / D, - u00 / D], [- (u10 * al + u11) / D, (u00 * al + u01) / D]]"
    using inv_2x2 [of "u00 * al + u01" u10 u00 "u10 * al + u11"] D
    by (simp add: dP)
  have "calcK [[f00, f01], [f10, f11]] [zs, zw] [[u00, u01], [u10, u11]] 2 =
          bindE (np_linalg_inv [[u00 * al + u01, u00], [u10 * al + u11, u10]])
            (\<lambda>Pinv. bindE (np_matmul [[kc0, kc1]] Pinv)
               (\<lambda>k. Inr (k, [[kc0, kc1]], [[u00 * al + u01, u00], [u10 * al + u11, u10]])))"
    by (simp add: calcK_def getitem_def char_matrix_def is_mat_def upt2 pdet_2x2
        pmul_monic_linear Let_def zeros_def coeff_def to_float_def setitem2_def np_matmul_def
        shape_def mmul_def al_def kc0_def kc1_def numeral_2_eq_2 del: pdet.simps)
  also have "\<dots> = Inr ([[(kc0 * u10 - kc1 * (u10 * al + u11)) / D,
                        (kc1 * (u00 * al + u01) - kc0 * u00) / D]],
                      [[kc0, kc1]],
                      [[u00 * al + u01, u00], [u10 * al + u11, u10]])"
    unfolding inv bindE_simps
    using D by (simp add: np_matmul_def shape_def mmul_def upt2 diff_divide_distrib add_divide_distrib algebra_simps)
  finally show ?thesis .
qed

lemma closed_loop_2x2:
  fixes f00 f01 f10 f11 g0 g1 zs zw z :: real
  assumes u01: "u01 = f00 * g0 + f01 * g1"
    and u11: "u11 = f10 * g0 + f11 * g1"
    and al: "al = - f00 - f11"
    and kc0: "kc0 = zs * zs + zw * zw - (f00 * f11 - f01 * f10)"
    and kc1: "kc1 = - (2 * zs) - al"
    and D: "D = u01 * g1 - g0 * u11"
    and Dk0: "D * k0 = kc0 * g1 - kc1 * (g1 * al + u11)"
    and Dk1: "D * k1 = kc1 * (g0 * al + u01) - kc0 * g0"
    and nz: "D \<noteq> 0"
  shows "(z - (f00 - g0 * k0)) * (z - (f11 - g1 * k1)) - (0 - (f01 - g0 * k1)) * (0 - (f10 - g1 * k0))
         = z\<^sup>2 - 2 * zs * z + (zs\<^sup>2 + zw\<^sup>2)"
proof -
  have T: "g0 * k0 + g1 * k1 = kc1"
  proof -
    have "D * (g0 * k0 + g1 * k1) = g0 * (D * k0) + g1 * (D * k1)"
      by (simp add: algebra_simps)
    also have "\<dots> = g0 * (kc0 * g1 - kc1 * (g1 * al + u11)) + g1 * (kc1 * (g0 * al + u01) - kc0 * g0)"
      by (simp only: Dk0 Dk1)
    also have "\<dots> = D * kc1"
      by (simp add: D algebra_simps)
    finally show ?thesis using nz by (metis mult_left_cancel)
  qed
  have A: "k0 * (f11 * g0 - f01 * g1) + k1 * (f00 * g1 - f10 * g0) = - kc0"
  proof -
    have "D * (k0 * (f11 * g0 - f01 * g1) + k1 * (f00 * g1 - f10 * g0))
          = (D * k0) * (f11 * g0 - f01 * g1) + (D * k1) * (f00 * g1 - f10 * g0)"
      by (simp add: algebra_simps)
    also have "\<dots> = (kc0 * g1 - kc1 * (g1 * al + u11)) * (f11 * g0 - f01 * g1)
            + (kc1 * (g0 * al + u01) - kc0 * g0) * (f00 * g1 - f10 * g0)"
      by (simp only: Dk0 Dk1)
    also have "\<dots> = D * (- kc0)"
      by (simp add: D u01 u11 al algebra_simps)
    finally show ?thesis using nz by (metis mult_left_cancel)
  qed
  have "(z - (f00 - g0 * k0)) * (z - (f11 - g1 * k1)) - (0 - (f01 - g0 * k1)) * (0 - (f10 - g1 * k0))
        = z\<^sup>2 + (al + (g0 * k0 + g1 * k1)) * z
          + ((f00 * f11 - f01 * f10) - (k0 * (f11 * g0 - f01 * g1) + k1 * (f00 * g1 - f10 * g0)))"
    by (simp add: al power2_eq_square algebra_simps)
  also have "\<dots> = z\<^sup>2 - 2 * zs * z + (zs\<^sup>2 + zw\<^sup>2)"
    unfolding T A by (simp add: kc1 kc0 power2_eq_square algebra_simps)
  finally show ?thesis .
qed

lemma closed_loop_det:
  "det (msub (smul z (identity 2)) (msub [[f00, f01], [f10, f11]] (mmul [[g0], [g1]] [[k0, k1]])))
   = (z - (f00 - g0 * k0)) * (z - (f11 - g1 * k1)) - (0 - (f01 - g0 * k1)) * (0 - (f10 - g1 * k0))"
  by (simp add: msub_def smul_def identity_def mmul_def shape_def upt2 det_2x2 del: det.simps)

lemma buildU_example_placement:
  "buildU [[1, 2], [3, 4]] [[1], [1]] 2 = Inr [[1, 3], [1, 7]]"
  by (simp add: buildU_2x2)

lemma buildU_singular_example:
  "buildU [[1, 0], [0, 1]] [[0], [0]] 2 = Inr [[0, 0], [0, 0]]"
  by (simp add: buildU_2x2)

lemma buildV_singular_example:
  "buildV [[1, 0], [0, 1]] [[0, 0]] 2 = Inr [[0, 0], [0, 0]]"
  by (simp add: buildV_def zeros_def upt2 getitem2_def setitem2_def np_matmul_def shape_def
      mmul_def numeral_2_eq_2)

lemma checkContr_example_placement:
  "checkContr det ([[1, 2], [3, 4]], [[1], [1]], [[1, 0]], 0) [1 / 2, 1 / 4] 2 =
     ([], Inr (Array [[91 / 64, 165 / 64]], Array [[37 / 16, 4]], Array [[- 2, 1], [2, 1]], 4))"
  by (simp add: checkContr_def buildU_2x2 np_linalg_det_def is_mat_def det_2x2 calcK_2x2
      del: det.simps)

lemma buildU_rounded_third:
  "buildU [[0, 1], [0, 6004799503160661 / 18014398509481984]] [[3], [1]] 2
     = Inr [[3, 1], [1, 6004799503160661 / 18014398509481984]]"
  by (simp add: buildU_2x2)

lemma buildU_singular_computed:
  "buildU [[1, 0], [0, 1]] [[3], [5]] 2 = Inr [[3, 3], [5, 5]]"
  by (simp add: buildU_2x2)

lemma underflow_at_pos: "0 < underflow_at"
  by (simp add: underflow_at_def)

lemma underflow_less_overflow: "underflow_at < overflow_at"
proof -
  have "underflow_at \<le> 1" by (simp add: underflow_at_def)
  moreover have "(2::real) ^ 970 * 2 \<le> 2 ^ 1024"
    by simp
  then have "(1::real) < overflow_at"
    unfolding overflow_at_def by simp
  ultimately show ?thesis by simp
qed

lemma in_range_moderate:
  assumes "1 / 1024 \<le> \<bar>x\<bar>" and "\<bar>x\<bar> \<le> 1024"
  shows "in_range x"
proof -
  have "underflow_at < 1 / 1024" by (simp add: underflow_at_def)
  moreover have "(1024::real) < overflow_at" by (simp add: overflow_at_def)
  ultimately show ?thesis using assms by (simp add: in_range_def)
qed

lemma round_mag_in_range:
  "underflow_at < m \<Longrightarrow> m < overflow_at \<Longrightarrow> round_mag s m = Fin (if s then - m else m)"
  by (simp add: round_mag_def)

lemma rnd_in_range: "in_range x \<Longrightarrow> rnd x = Fin x"
  using underflow_at_pos underflow_less_overflow
  by (auto simp: in_range_def rnd_def round_mag_def)

lemma sign_if_abs: "(if x < 0 then - \<bar>x\<bar> else \<bar>x\<bar>) = (x::real)"
  by simp

lemma np_multiply_Fin:
  assumes "in_range (a * b)" and "a * b = 0 \<longrightarrow> 0 \<le> a \<and> 0 \<le> b"
  shows "np_multiply (Fin a) (Fin b) = Fin (a * b)"
proof (cases "a * b = 0")
  case True
  then show ?thesis
    using assms(2) underflow_at_pos underflow_less_overflow
    by (auto simp: np_multiply_def round_mag_def)
next
  case False
  then have r: "underflow_at < \<bar>a * b\<bar>" "\<bar>a * b\<bar> < overflow_at"
    using assms(1) by (simp_all add: in_range_def)
  have nz: "a \<noteq> 0" "b \<noteq> 0"
    using False by auto
  have s: "((a < 0) \<noteq> (b < 0)) = (a * b < 0)"
    using nz by (cases a "0::real" rule: linorder_cases; cases b "0::real" rule: linorder_cases)
      (simp_all add: mult_less_0_iff)
  have "np_multiply (Fin a) (Fin b) = round_mag ((a < 0) \<noteq> (b < 0)) (\<bar>a\<bar> * \<bar>b\<bar>)"
    unfolding np_multiply_def by (simp del: not_less)
  also have "\<dots> = round_mag (a * b < 0) \<bar>a * b\<bar>"
    by (simp only: s abs_mult)
  also have "\<dots> = Fin (if a * b < 0 then - \<bar>a * b\<bar> else \<bar>a * b\<bar>)"
    using r by (rule round_mag_in_range)
  also have "\<dots> = Fin (a * b)"
    by (simp only: sign_if_abs)
  finally show ?thesis .
qed

lemma np_multiply_pos:
  assumes "0 < a" and "in_range (a * b)"
  shows "np_multiply (Fin a) (Fin b) = Fin (a * b)"
proof (cases "b = 0")
  case True
  then show ?thesis
    using assms(1) underflow_at_pos underflow_less_overflow
    by (simp add: np_multiply_def round_mag_def)
next
  case False
  then show ?thesis
    using assms by (intro np_multiply_Fin) auto
qed

lemma np_divide_Fin:
  assumes "in_range (a / b)" and "a \<noteq> 0" and "b \<noteq> 0"
  shows "np_divide (Fin a) (Fin b) = Fin (a / b)"
proof -
  have r: "underflow_at < \<bar>a / b\<bar>" "\<bar>a / b\<bar> < overflow_at"
    using assms by (simp_all add: in_range_def)
  have s: "((a < 0) \<noteq> (b < 0)) = (a / b < 0)"
    using assms(2,3)
    by (cases a "0::real" rule: linorder_cases; cases b "0::real" rule: linorder_cases)
      (simp_all add: divide_less_0_iff)
  have "np_divide (Fin a) (Fin b) = round_mag ((a < 0) \<noteq> (b < 0)) (\<bar>a\<bar> / \<bar>b\<bar>)"
    unfolding np_divide_def using assms(2,3) by (simp del: not_less)
  also have "\<dots> = round_mag (a / b < 0) \<bar>a / b\<bar>"
    by (simp only: s abs_divide)
  also have "\<dots> = Fin (if a / b < 0 then - \<bar>a / b\<bar> else \<bar>a / b\<bar>)"
    using r by (rule round_mag_in_range)
  also have "\<dots> = Fin (a / b)"
    by (simp only: sign_if_abs)
  finally show ?thesis .
qed

lemma np_exp_product:
  assumes "in_range (a * b)" and "in_range (exp (a * b))"
  shows "np_exp (np_multiply (Fin a) (Fin b)) = Fin (exp (a * b))"
proof (cases "a * b = 0")
  case True
  have "np_multiply (Fin a) (Fin b) = Fin 0 \<or> np_multiply (Fin a) (Fin b) = NZero"
    using True underflow_at_pos underflow_less_overflow
    by (auto simp: np_multiply_def round_mag_def)
  moreover have "rnd 1 = Fin 1"
    using assms(2) True by (simp add: rnd_in_range)
  ultimately show ?thesis
    using True by auto
next
  case False
  then have "np_multiply (Fin a) (Fin b) = Fin (a * b)"
    using assms(1) by (intro np_multiply_Fin) auto
  then show ?thesis
    using assms(2) by (simp add: rnd_in_range)
qed

lemma exp_1_in_range: "in_range (exp 1)"
proof (rule in_range_moderate)
  have "(1::real) \<le> exp 1" by simp
  moreover have "1 / 1024 \<le> (1::real)" by simp
  ultimately have "1 / 1024 \<le> exp (1::real)" by (rule order_trans [rotated])
  then show "1 / 1024 \<le> \<bar>exp (1::real)\<bar>" by simp
  have "exp (1::real) \<le> 3" by (rule exp_le)
  then show "\<bar>exp (1::real)\<bar> \<le> 1024" by simp
qed

lemma exp_1000_overflows: "overflow_at \<le> exp 1000"
proof -
  have e1: "(5 / 2 :: real) \<le> exp 1"
    using exp_lower_Taylor_quadratic [of "1::real"] by simp
  have "(5 / 2 :: real) ^ 1000 \<le> exp 1 ^ 1000"
    using e1 by (intro power_mono) simp_all
  also have "exp (1::real) ^ 1000 = exp (of_nat 1000 * 1)"
    by (rule exp_of_nat_mult [symmetric])
  finally have a: "(5 / 2 :: real) ^ 1000 \<le> exp 1000"
    by (simp only: of_nat_numeral mult_1_right)
  have "(32 :: real) \<le> (5 / 2) ^ 4"
    by (simp add: power4_eq_xxxx)
  then have "(32 :: real) ^ 250 \<le> ((5 / 2) ^ 4) ^ 250"
    by (intro power_mono) simp_all
  also have "((5 / 2 :: real) ^ 4) ^ 250 = (5 / 2) ^ (4 * 250)"
    by (rule power_mult [symmetric])
  also have "(4 :: nat) * 250 = 1000"
    by simp
  finally have b: "(32 :: real) ^ 250 \<le> (5 / 2) ^ 1000" .
  have "(2 :: real) ^ 1024 \<le> 2 ^ (5 * 250)"
    by (intro power_increasing) simp_all
  also have "(2 :: real) ^ (5 * 250) = (2 ^ 5) ^ 250"
    by (rule power_mult)
  also have "(2 :: real) ^ 5 = 32"
    by simp
  finally have c: "(2 :: real) ^ 1024 \<le> 32 ^ 250" .
  have "(0 :: real) \<le> 2 ^ 970"
    by (rule zero_le_power) simp
  then have d: "overflow_at \<le> 2 ^ 1024"
    unfolding overflow_at_def by linarith
  show ?thesis
    using d c b a by (blast intro: order_trans)
qed

lemma recompute_in_range_example: "recompute_in_range 2 (1 / 2)"
proof -
  have s3: "2 * sqrt (1 - 1 / 2 * (1 / 2)) = sqrt 3"
    using two_sqrt_three_quarters by (simp add: power2_eq_square)
  have lo: "1 \<le> sqrt 3"
    by simp
  have "sqrt 3 \<le> sqrt 4"
    by (simp only: real_sqrt_le_iff)
  then have hi: "sqrt 3 \<le> 2"
    by simp
  have p: "2 \<le> pi" "pi \<le> 4"
    using pi_ge_two pi_less_4 by simp_all
  have q1: "pi / sqrt 3 \<le> pi / 1"
    using lo p by (intro divide_left_mono) simp_all
  have q2: "pi / 2 \<le> pi / sqrt 3"
    using lo hi p by (intro divide_left_mono) simp_all
  have a1: "1 / 1024 \<le> \<bar>sqrt 3\<bar>" "\<bar>sqrt 3\<bar> \<le> 1024"
    using lo hi by linarith+
  have b1: "1 / 1024 \<le> \<bar>pi / sqrt 3\<bar>" "\<bar>pi / sqrt 3\<bar> \<le> 1024"
    using q1 q2 p by linarith+
  have a: "in_range (2 * sqrt (1 - 1 / 2 * (1 / 2)))"
    unfolding s3 using a1 by (rule in_range_moderate)
  have b: "in_range (pi / (2 * sqrt (1 - 1 / 2 * (1 / 2))))"
    unfolding s3 using b1 by (rule in_range_moderate)
  have c: "in_range 2" "in_range (1 / 2)" "in_range (1 / 2 * 2)" "in_range (1 / 2 * (1 / 2))"
    "in_range (1 - 1 / 2 * (1 / 2))" "in_range (4 / (1 / 2 * 2))" "in_range ((18 / 10) / 2)"
    by (auto intro!: in_range_moderate)
  show ?thesis
    unfolding recompute_in_range_def using a b c by blast
qed

lemma tiny_product_underflows: "(1 / 2 ^ 600 :: real) * (1 / 2 ^ 600) \<le> underflow_at"
proof -
  have "(1 / 2 ^ 600 :: real) * (1 / 2 ^ 600) = 1 / 2 ^ (600 + 600)"
    by (simp only: power_add times_divide_times_eq mult_1)
  also have "\<dots> \<le> 1 / 2 ^ 1075"
    by (intro divide_left_mono power_increasing) simp_all
  finally show ?thesis by (simp only: underflow_at_def)
qed

lemma calcPoles_zero: "calcPoles 0 0 T = (Fin 1, if T < 0 then NZero else Fin 0)"
proof -
  have r1: "rnd 1 = Fin 1"
    by (rule rnd_in_range, rule in_range_moderate) simp_all
  have m: "np_multiply (Fin 0) (Fin T) = (if T < 0 then NZero else Fin 0)"
    using underflow_at_pos underflow_less_overflow by (simp add: np_multiply_def round_mag_def)
  have a: "np_multiply (Fin 1) (Fin 1) = Fin 1"
    using np_multiply_Fin [of 1 1] by (simp add: in_range_moderate)
  have b: "np_multiply (Fin 1) (Fin 0) = Fin 0" "np_multiply (Fin 1) NZero = NZero"
    using underflow_at_pos underflow_less_overflow by (simp_all add: np_multiply_def round_mag_def)
  show ?thesis
    by (simp add: calcPoles_def m r1 a b)
qed

lemma processPoles_stores_floats:
  assumes "processPoles pyfloat fmt z_entries s_entries e_T ve = Inr (z1, ve2)"
  shows "\<exists>a b c. getPoles ve2 = (PyFloat a, PyFloat b, PyFloat c)"
  using assms
  by (auto simp: processPoles_def readPoles_def clearPoles_def bindE_def setPoles_def getPoles_def
      split: sum.splits prod.splits)

lemma processPoles_example:
  "processPoles (\<lambda>s. if s = ''0'' then Some 0 else if s = ''1'' then Some 1 else None)
       (\<lambda>x. ''x'') [''a'', ''b''] [''0'', ''0''] ''1''
       \<lparr>ve_z_sigma = PyInteger 0, ve_z_wd = PyInteger 0, ve_T = PyInteger 0,
        ve_F = [[0]], ve_g = [[0]], ve_c = [[0]], ve_d = 0, ve_dim = 1\<rparr>
   = Inr ([''x'', ''x''],
          \<lparr>ve_z_sigma = PyFloat (Fin 1), ve_z_wd = PyFloat (Fin 0), ve_T = PyFloat 1,
           ve_F = [[0]], ve_g = [[0]], ve_c = [[0]], ve_d = 0, ve_dim = 1\<rparr>)"
proof -
  have c: "calcPoles 0 0 1 = (Fin 1, Fin 0)"
    using calcPoles_zero by simp
  show ?thesis
    by (simp add: processPoles_def readPoles_def clearPoles_def getitem_def py_float_def
        c setPoles_def)
qed

subsection \<open>Controllability and feedback gain\<close>






text \<open>
  C3.  Whenever the double that \<open>np.linalg.det\<close> returns for the controllability
  matrix \<open>U\<close> that \<open>checkContr\<close> builds is zero, \<open>checkContr\<close> prints the diagnostic
  and returns the integer \<open>0\<close> for each of \<open>k\<close>, \<open>k_c\<close> and \<open>P\<close>, and \<open>0\<close> for the
  determinant: it does not call \<open>calcK\<close>.
\<close>

theorem checkContr_singular:
  assumes "buildU F g n = Inr U" and "npdet U = 0"
  shows "checkContr npdet (F, g, c, d) poles n =
           ([''system not controlable''], Inr (PyInt 0, PyInt 0, PyInt 0, 0))"
  using assms buildU_is_mat [OF assms(1)]
  by (simp add: checkContr_def np_linalg_det_square)

theorem checkContr_singular_witness:
  "buildU [[1, 0], [0, 1]] [[0], [0]] 2 = Inr [[0, 0], [0, 0]]
   \<and> det [[0, 0], [0, 0]] = 0
   \<and> checkContr det ([[1, 0], [0, 1]], [[0], [0]], [[1, 0]], 0) [1 / 2, 1 / 4] 2 =
       ([''system not controlable''], Inr (PyInt 0, PyInt 0, PyInt 0, 0))"
proof -
  have d: "det [[0, 0], [0, 0]] = 0"
    by (simp add: det_2x2 del: det.simps)
  from checkContr_singular [where npdet=det and c="[[1, 0]]" and d=0 and poles="[1 / 2, 1 / 4]",
      OF buildU_singular_example d]
  show ?thesis
    using d buildU_singular_example by blast
qed

text \<open>
  A matrix \<open>U\<close> of determinant zero is not enough.  \<open>F = [[1,0],[0,1]]\<close> and
  \<open>g = [[3],[5]]\<close> give \<open>U = [[3,3],[5,5]]\<close>, for which \<open>np.linalg.det\<close> returns
  \<open>5 * 2^-51\<close> (the pivot is \<open>5\<close>, the multiplier \<open>3 * (1/5)\<close> is rounded up to the
  double after \<open>0.6\<close>, and the second pivot is \<open>3 - 5 * 0.6000000000000001 = - 2^-51\<close>):
  \<open>checkContr\<close> prints no diagnostic and calls \<open>calcK\<close>.  The computed determinant
  below is the determinant but for its value at \<open>U\<close>.
\<close>

theorem checkContr_singular_counterexample:
  "buildU [[1, 0], [0, 1]] [[3], [5]] 2 = Inr [[3, 3], [5, 5]]
   \<and> det [[3, 3], [5, 5]] = 0
   \<and> fst (checkContr (det([[3, 3], [5, 5]] := 5 / 2 ^ 51))
            ([[1, 0], [0, 1]], [[3], [5]], [[1, 0]], 0) [1 / 2, 1 / 4] 2)
       = []
   \<and> checkContr (det([[3, 3], [5, 5]] := 5 / 2 ^ 51))
         ([[1, 0], [0, 1]], [[3], [5]], [[1, 0]], 0) [1 / 2, 1 / 4] 2
       \<noteq> ([''system not controlable''], Inr (PyInt 0, PyInt 0, PyInt 0, 0))"
proof -
  have "fst (checkContr (det([[3, 3], [5, 5]] := 5 / 2 ^ 51))
            ([[1, 0], [0, 1]], [[3], [5]], [[1, 0]], 0) [1 / 2, 1 / 4] 2)
       = []"
    by (simp add: checkContr_def buildU_singular_computed np_linalg_det_def is_mat_def
        split: sum.splits prod.splits del: det.simps)
  moreover from this
  have "checkContr (det([[3, 3], [5, 5]] := 5 / 2 ^ 51))
         ([[1, 0], [0, 1]], [[3], [5]], [[1, 0]], 0) [1 / 2, 1 / 4] 2
       \<noteq> ([''system not controlable''], Inr (PyInt 0, PyInt 0, PyInt 0, 0))"
    by auto
  moreover have "det [[3, 3], [5, 5]] = 0"
    by (simp add: det_2x2 del: det.simps)
  ultimately show ?thesis
    using buildU_singular_computed by blast
qed

subsection \<open>Observability\<close>

text \<open>
  C4.  The specification asks that \<open>checkObs\<close> end normally and return \<open>det_V = 0\<close>
  when the observability matrix is singular.  The code does not: whenever the double
  that \<open>np.linalg.det\<close> returns for the matrix \<open>V\<close> it builds is zero, \<open>checkObs\<close>
  prints the diagnostic and then raises \<open>ValueError\<close>, so nothing is returned.
\<close>

theorem checkObs_singular_raises:
  assumes "buildV F c n = Inr V" and "npdet V = 0"
  shows "checkObs npdet (F, g, c, d) poles n = ([''system not observable''], Inl ValueError)"
  using assms buildV_is_mat [OF assms(1)]
  by (simp add: checkObs_def np_linalg_det_square)

theorem checkObs_singular_raises_witness:
  "buildV [[1, 0], [0, 1]] [[0, 0]] 2 = Inr [[0, 0], [0, 0]]
   \<and> det [[0, 0], [0, 0]] = 0
   \<and> checkObs det ([[1, 0], [0, 1]], [[0], [0]], [[0, 0]], 0) [1 / 2, 1 / 4] 2 =
       ([''system not observable''], Inl ValueError)"
proof -
  have d: "det [[0, 0], [0, 0]] = 0"
    by (simp add: det_2x2 del: det.simps)
  from checkObs_singular_raises [where npdet=det and g="[[0], [0]]" and d=0
      and poles="[1 / 2, 1 / 4]", OF buildV_singular_example d]
  show ?thesis
    using d buildV_singular_example by blast
qed

subsection \<open>Discretizer\<close>



subsection \<open>Pole mapper\<close>

text \<open>
  C6.  When the products \<open>sigma T\<close> and \<open>wd T\<close>, the exponential \<open>e^(sigma T)\<close> and
  the two results are in the range of doubles (and, if \<open>wd T\<close> is zero, neither
  factor is negative), \<open>calcPoles\<close> returns \<open>z_sigma = e^(sigma T) cos (wd T)\<close> and
  \<open>z_wd = e^(sigma T) sin (wd T)\<close>; with \<open>wd = 0\<close> and \<open>T\<close> not negative it returns
  \<open>e^(sigma T)\<close> and \<open>0\<close>.  The result is a function of the three arguments alone:
  \<open>calcPoles\<close> reads and writes no state.
\<close>

theorem calcPoles_in_range:
  assumes "in_range (s_sigma * T)" and "in_range (exp (s_sigma * T))"
    and "in_range (s_wd * T)" and "s_wd * T = 0 \<longrightarrow> 0 \<le> s_wd \<and> 0 \<le> T"
    and "in_range (exp (s_sigma * T) * cos (s_wd * T))"
    and "in_range (exp (s_sigma * T) * sin (s_wd * T))"
  shows "calcPoles s_sigma s_wd T =
           (Fin (exp (s_sigma * T) * cos (s_wd * T)), Fin (exp (s_sigma * T) * sin (s_wd * T)))
         \<and> (0 \<le> T \<longrightarrow> calcPoles s_sigma 0 T = (Fin (exp (s_sigma * T)), Fin 0))"
proof -
  have e: "np_exp (np_multiply (Fin s_sigma) (Fin T)) = Fin (exp (s_sigma * T))"
    using assms(1,2) by (rule np_exp_product)
  have w: "np_multiply (Fin s_wd) (Fin T) = Fin (s_wd * T)"
    using assms(3,4) by (rule np_multiply_Fin)
  have c: "np_multiply (Fin (exp (s_sigma * T))) (Fin (cos (s_wd * T)))
             = Fin (exp (s_sigma * T) * cos (s_wd * T))"
    using assms(5) by (intro np_multiply_pos) simp_all
  have s: "np_multiply (Fin (exp (s_sigma * T))) (Fin (sin (s_wd * T)))
             = Fin (exp (s_sigma * T) * sin (s_wd * T))"
    using assms(6) by (intro np_multiply_pos) simp_all
  have 1: "calcPoles s_sigma s_wd T =
           (Fin (exp (s_sigma * T) * cos (s_wd * T)), Fin (exp (s_sigma * T) * sin (s_wd * T)))"
    by (simp add: calcPoles_def e w c s)
  have 2: "calcPoles s_sigma 0 T = (Fin (exp (s_sigma * T)), Fin 0)" if "0 \<le> T"
  proof -
    have w0: "np_multiply (Fin 0) (Fin T) = Fin 0"
      using that by (intro np_multiply_Fin [of 0 T, simplified]) (simp_all add: in_range_def)
    have c0: "np_multiply (Fin (exp (s_sigma * T))) (Fin 1) = Fin (exp (s_sigma * T))"
      using assms(2) np_multiply_pos [of "exp (s_sigma * T)" 1] by simp
    have s0: "np_multiply (Fin (exp (s_sigma * T))) (Fin 0) = Fin 0"
      using np_multiply_pos [of "exp (s_sigma * T)" 0] by (simp add: in_range_def)
    show ?thesis
      by (simp add: calcPoles_def e w0 c0 s0)
  qed
  show ?thesis using 1 2 by blast
qed

theorem calcPoles_in_range_witness:
  "in_range (1 * 1) \<and> in_range (exp (1 * 1)) \<and> in_range (0 * 1)
   \<and> in_range (exp (1 * 1) * cos (0 * 1)) \<and> in_range (exp (1 * 1) * sin (0 * 1))
   \<and> calcPoles 1 0 1 = (Fin (exp 1), Fin 0)"
proof -
  have r: "in_range (1 * 1)" "in_range (0 * 1)" "in_range (exp (1 * 1) * sin (0 * 1))"
    by (rule in_range_moderate, simp, simp) (simp_all add: in_range_def)
  have e: "in_range (exp (1 * 1))" "in_range (exp (1 * 1) * cos (0 * 1))"
    using exp_1_in_range by simp_all
  have s: "(0::real) * 1 = 0 \<longrightarrow> (0::real) \<le> 0 \<and> (0::real) \<le> 1"
    by simp
  from calcPoles_in_range [OF r(1) e(1) r(2) s e(2) r(3)]
  have "calcPoles 1 0 1 = (Fin (exp 1), Fin 0)"
    by simp
  then show ?thesis
    using r e by blast
qed

text \<open>
  Without the conditions on the range the property fails: \<open>e^1000\<close> is beyond the
  largest double, \<open>np.exp\<close> returns an infinity, and its product with \<open>sin 0 = 0\<close>
  is \<open>nan\<close>.
\<close>

theorem calcPoles_overflow_counterexample:
  "calcPoles 1000 0 1 = (PInf, NaN)"
proof -
  have m: "np_multiply (Fin 1000) (Fin 1) = Fin 1000"
    using np_multiply_Fin [of 1000 1] by (simp add: in_range_moderate)
  have "\<not> exp (1000 :: real) < 0"
    by (simp add: not_less)
  then have e: "rnd (exp 1000) = PInf"
    using exp_1000_overflows by (simp add: rnd_def round_mag_def)
  have w: "np_multiply (Fin 0) (Fin 1) = Fin 0"
    using np_multiply_Fin [of 0 1] by (simp add: in_range_def)
  have p1: "np_multiply PInf (Fin 1) = PInf"
    by (simp add: np_multiply_def signed_inf_def)
  have p0: "np_multiply PInf (Fin 0) = NaN"
    by (simp add: np_multiply_def)
  show ?thesis
    by (simp add: calcPoles_def m e w p1 p0)
qed

subsection \<open>Requirement reconciler\<close>

text \<open>
  C7.  When the first four steps leave \<open>wn\<close> and \<open>zeta\<close> nonzero, \<open>zeta\<^sup>2 < 1\<close>,
  and \<open>wn\<close>, \<open>zeta\<close> and every step of the recomputation are in the range of
  doubles, \<open>calcRequirements\<close> raises nothing and returns \<open>sigma = zeta wn\<close>,
  \<open>wd = wn sqrt (1 - zeta\<^sup>2)\<close>, \<open>ts = 4 / sigma\<close>, \<open>tp = pi / wd\<close> and \<open>tr = 1.8 / wn\<close>,
  whatever \<open>sigma\<close>, \<open>wd\<close>, \<open>ts\<close>, \<open>tp\<close> and \<open>tr\<close> were before.
\<close>

theorem calcRequirements_recompute:
  assumes m: "calcMissing r = Inr (wn, zeta, ts, tr, tp, wd, sigma)"
    and wn: "wn \<noteq> 0" and zeta: "zeta \<noteq> 0" and z1: "zeta\<^sup>2 < 1"
    and r: "recompute_in_range wn zeta"
  shows "calcRequirements r =
           Inr (wn, zeta, Fin (4 / (zeta * wn)), Fin ((18 / 10) / wn),
                Fin (pi / (wn * sqrt (1 - zeta\<^sup>2))),
                Fin (wn * sqrt (1 - zeta\<^sup>2)), Fin (zeta * wn))"
proof -
  let ?v = "1 - zeta * zeta"
  have v: "0 < ?v"
    using z1 by (simp add: power2_eq_square)
  have sv: "0 < sqrt ?v"
    using v by simp
  have wd0: "wn * sqrt ?v \<noteq> 0"
    using wn sv by simp
  have s0: "zeta * wn \<noteq> 0"
    using wn zeta by simp
  have sigma2: "np_multiply (Fin zeta) (Fin wn) = Fin (zeta * wn)"
    using r s0 by (intro np_multiply_Fin) (simp_all add: recompute_in_range_def)
  have sq: "np_square (Fin zeta) = Fin (zeta * zeta)"
    unfolding np_square_def using r zeta
    by (intro np_multiply_Fin) (simp_all add: recompute_in_range_def)
  have sub: "np_rsub 1 (Fin (zeta * zeta)) = Fin ?v"
    using r by (simp add: rnd_in_range recompute_in_range_def)
  have rt: "np_sqrt (Fin ?v) = Fin (sqrt ?v)"
    using v by simp
  have wd2: "np_multiply (Fin wn) (Fin (sqrt ?v)) = Fin (wn * sqrt ?v)"
    using r wd0 by (intro np_multiply_Fin) (simp_all add: recompute_in_range_def)
  have ts2: "float_truediv (Fin 4) (Fin (zeta * wn)) = Inr (Fin (4 / (zeta * wn)))"
    using r s0 np_divide_Fin [of 4 "zeta * wn"]
    by (simp add: float_truediv_def recompute_in_range_def)
  have tp2: "np_divide (Fin pi) (Fin (wn * sqrt ?v)) = Fin (pi / (wn * sqrt ?v))"
    using r wd0 by (intro np_divide_Fin) (simp_all add: recompute_in_range_def)
  have tr2: "float_truediv (Fin (9 / 5)) (Fin wn) = Inr (Fin ((9 / 5) / wn))"
    using r wn np_divide_Fin [of "9 / 5" wn]
    by (simp add: float_truediv_def recompute_in_range_def)
  show ?thesis
    using wn zeta
    by (simp add: calcRequirements_def m Let_def sigma2 sq sub rt wd2 ts2 tp2 tr2
        power2_eq_square del: np_sqrt.simps np_rsub.simps)
qed

theorem calcRequirements_recompute_witness:
  "calcMissing (2, 1 / 2, 0, 0, 0, 0, 0) = Inr (2, 1 / 2, 0, 0, 0, 0, 0)
   \<and> (2 :: real) \<noteq> 0 \<and> (1 / 2 :: real) \<noteq> 0 \<and> (1 / 2 :: real)\<^sup>2 < 1
   \<and> recompute_in_range 2 (1 / 2)
   \<and> calcRequirements (2, 1 / 2, 0, 0, 0, 0, 0) =
       Inr (2, 1 / 2, Fin 4, Fin (9 / 10), Fin (pi / sqrt 3), Fin (sqrt 3), Fin 1)"
proof -
  have z: "(1 / 2 :: real)\<^sup>2 < 1"
    by (simp add: power2_eq_square)
  have "calcRequirements (2, 1 / 2, 0, 0, 0, 0, 0) =
       Inr (2, 1 / 2, Fin 4, Fin (9 / 10), Fin (pi / sqrt 3), Fin (sqrt 3), Fin 1)"
    using calcRequirements_recompute [OF calcMissing_example _ _ z recompute_in_range_example]
      two_sqrt_three_quarters
    by simp
  then show ?thesis
    using calcMissing_example z recompute_in_range_example by simp
qed

text \<open>
  Without these conditions the property fails.  With \<open>wn = 1\<close> and \<open>zeta = 2\<close> the
  square root is of \<open>-3\<close>, and \<open>wd\<close> and \<open>tp\<close> are \<open>nan\<close>.  With
  \<open>wn = zeta = 2^-600\<close> the product \<open>zeta*wn\<close> is the double \<open>0.0\<close>, and \<open>4/sigma\<close>
  raises \<open>ZeroDivisionError\<close>.
\<close>

theorem calcRequirements_counterexample:
  "calcRequirements (1, 2, 0, 0, 0, 0, 0) = Inr (1, 2, Fin 2, Fin (9 / 5), NaN, NaN, Fin 2)
   \<and> calcRequirements (1 / 2 ^ 600, 1 / 2 ^ 600, 0, 0, 0, 0, 0) = Inl ZeroDivisionError"
proof -
  have m1: "calcMissing (1, 2, 0, 0, 0, 0, 0) = Inr (1, 2, 0, 0, 0, 0, 0)"
    by (simp add: calcMissing_def)
  have a: "np_multiply (Fin 2) (Fin 1) = Fin 2"
    using np_multiply_Fin [of 2 1] by (simp add: in_range_moderate)
  have b: "np_square (Fin 2) = Fin 4"
    unfolding np_square_def using np_multiply_Fin [of 2 2] by (simp add: in_range_moderate)
  have c: "np_rsub 1 (Fin 4) = Fin (- 3)"
    using rnd_in_range [of "- 3"] by (simp add: in_range_moderate)
  have d: "np_sqrt (Fin (- 3)) = NaN"
    by simp
  have e: "np_multiply (Fin 1) NaN = NaN" "np_divide (Fin pi) NaN = NaN"
    by (simp_all add: np_multiply_def np_divide_def)
  have f: "float_truediv (Fin 4) (Fin 2) = Inr (Fin 2)"
    using np_divide_Fin [of 4 2] by (simp add: float_truediv_def in_range_moderate)
  have g: "float_truediv (Fin (9 / 5)) (Fin 1) = Inr (Fin (9 / 5))"
    using np_divide_Fin [of "9 / 5" 1] by (simp add: float_truediv_def in_range_moderate)
  have 1: "calcRequirements (1, 2, 0, 0, 0, 0, 0) = Inr (1, 2, Fin 2, Fin (9 / 5), NaN, NaN, Fin 2)"
    by (simp add: calcRequirements_def m1 Let_def a b c d e f g
        del: np_sqrt.simps np_rsub.simps)
  have nz: "(1 / 2 ^ 600 :: real) \<noteq> 0"
    by simp
  have m2: "calcMissing (1 / 2 ^ 600, 1 / 2 ^ 600, 0, 0, 0, 0, 0)
              = Inr (1 / 2 ^ 600, 1 / 2 ^ 600, 0, 0, 0, 0, 0)"
    using nz by (simp add: calcMissing_def del: power_numeral)
  have pos: "\<not> (1 / 2 ^ 600 :: real) < 0"
    by (simp add: not_less)
  have ab: "\<bar>1 / 2 ^ 600 :: real\<bar> = 1 / 2 ^ 600"
    by (rule abs_of_nonneg) simp
  have "\<not> overflow_at \<le> (1 / 2 ^ 600 :: real) * (1 / 2 ^ 600)"
    using tiny_product_underflows underflow_less_overflow by linarith
  then have u: "np_multiply (Fin (1 / 2 ^ 600)) (Fin (1 / 2 ^ 600)) = Fin 0"
    using tiny_product_underflows pos
    by (simp add: np_multiply_def round_mag_def ab del: power_numeral times_divide_times_eq)
  have z: "float_truediv (Fin 4) (Fin 0) = Inl ZeroDivisionError"
    by (simp add: float_truediv_def)
  have 2: "calcRequirements (1 / 2 ^ 600, 1 / 2 ^ 600, 0, 0, 0, 0, 0) = Inl ZeroDivisionError"
    using nz by (simp add: calcRequirements_def m2 Let_def u z del: power_numeral)
  show ?thesis using 1 2 by blast
qed

text \<open>
  C8.  With \<open>wn\<close> and \<open>zeta\<close> zero and \<open>sigma\<close> nonzero after the first two steps
  (it was given nonzero, or \<open>ts\<close> was and \<open>sigma\<close> became \<open>4 / ts\<close>),
  \<open>calcRequirements\<close> raises \<open>ZeroDivisionError\<close> at \<open>wn = sigma / zeta\<close>.
\<close>

theorem calcRequirements_zero_division:
  assumes "wn = 0" and "zeta = 0" and "sigma \<noteq> 0 \<or> ts \<noteq> 0"
  shows "calcRequirements (wn, zeta, ts, tr, tp, wd, sigma) = Inl ZeroDivisionError"
  using assms by (auto simp: calcRequirements_def calcMissing_def py_truediv_def)

theorem calcRequirements_zero_division_witness:
  "(0 :: real) = 0 \<and> (4 :: real) \<noteq> 0
   \<and> calcRequirements (0, 0, 4, 0, 0, 0, 0) = Inl ZeroDivisionError"
  using calcRequirements_zero_division [of 0 0 0 4 0 0 0]
  by simp

subsection \<open>Entry fields and stored values\<close>

text \<open>
  C9.  The specification asks that with the radio group on "Set discrete"
  \<open>calcModel\<close> store the matrices of the discrete entry fields.  The code does not:
  \<open>readDisc\<close> takes \<open>e_d\<close> from place \<open>0\<close> of \<open>disc_entries\<close>, the array of the
  entries of \<open>F\<close>, and calls \<open>get\<close> on it.  For the list \<open>[e_F, e_g, e_c, e_d]\<close>
  that the tab builds, whatever the texts and the dimension, \<open>readDisc\<close> raises
  \<open>AttributeError\<close>, and so does \<open>calcModel\<close>: no model is stored.
\<close>

theorem calcModel_discrete_raises:
  "readDisc pyfloat [EntryArray e_F, EntryArray e_g, EntryArray e_c, Entry e_d] dimn
     = Inl AttributeError
   \<and> calcModel pyfloat fmt 1 cont_entries [EntryArray e_F, EntryArray e_g, EntryArray e_c, Entry e_d]
         dimn ve
     = Inl AttributeError"
  by (simp add: calcModel_def readDisc_def getitem_def widget_get_def Let_def)

text \<open>
  C10.  \<open>readZPoles\<close> stores the texts of the two pole entries and of the sample
  time entry as strings, whatever they are, and \<open>getPoles\<close> then returns these
  strings; \<open>processPoles\<close>, whenever it returns, has stored three floats.
\<close>

theorem readZPoles_stores_text:
  "(\<exists>ve1. readZPoles [z_sigma, z_wd] T ve = Inr ve1
           \<and> getPoles ve1 = (PyStr z_sigma, PyStr z_wd, PyStr T))
   \<and> (\<forall>z1 ve2. processPoles pyfloat fmt z_entries s_entries e_T ve = Inr (z1, ve2)
         \<longrightarrow> (\<exists>a b c. getPoles ve2 = (PyFloat a, PyFloat b, PyFloat c)))"
  using processPoles_stores_floats
  by (simp add: readZPoles_def getitem_def setPoles_def getPoles_def)

theorem readZPoles_stores_text_witness:
  "readZPoles [''0.5'', ''abc''] ''1''
       \<lparr>ve_z_sigma = PyInteger 0, ve_z_wd = PyInteger 0, ve_T = PyInteger 0,
        ve_F = [[0]], ve_g = [[0]], ve_c = [[0]], ve_d = 0, ve_dim = 1\<rparr>
     = Inr \<lparr>ve_z_sigma = PyStr ''0.5'', ve_z_wd = PyStr ''abc'', ve_T = PyStr ''1'',
            ve_F = [[0]], ve_g = [[0]], ve_c = [[0]], ve_d = 0, ve_dim = 1\<rparr>
   \<and> processPoles (\<lambda>s. if s = ''0'' then Some 0 else if s = ''1'' then Some 1 else None)
       (\<lambda>x. ''x'') [''a'', ''b''] [''0'', ''0''] ''1''
       \<lparr>ve_z_sigma = PyInteger 0, ve_z_wd = PyInteger 0, ve_T = PyInteger 0,
        ve_F = [[0]], ve_g = [[0]], ve_c = [[0]], ve_d = 0, ve_dim = 1\<rparr>
     = Inr ([''x'', ''x''],
          \<lparr>ve_z_sigma = PyFloat (Fin 1), ve_z_wd = PyFloat (Fin 0), ve_T = PyFloat 1,
           ve_F = [[0]], ve_g = [[0]], ve_c = [[0]], ve_d = 0, ve_dim = 1\<rparr>)
   \<and> (\<exists>a b c. getPoles \<lparr>ve_z_sigma = PyFloat (Fin 1), ve_z_wd = PyFloat (Fin 0), ve_T = PyFloat 1,
           ve_F = [[0]], ve_g = [[0]], ve_c = [[0]], ve_d = 0, ve_dim = 1\<rparr>
         = (PyFloat a, PyFloat b, PyFloat c))"
proof -
  have "\<exists>a b c. getPoles \<lparr>ve_z_sigma = PyFloat (Fin 1), ve_z_wd = PyFloat (Fin 0), ve_T = PyFloat 1,
           ve_F = [[0]], ve_g = [[0]], ve_c = [[0]], ve_d = 0, ve_dim = 1\<rparr>
         = (PyFloat a, PyFloat b, PyFloat c)"
    using readZPoles_stores_text processPoles_example by blast
  moreover have "readZPoles [''0.5'', ''abc''] ''1''
       \<lparr>ve_z_sigma = PyInteger 0, ve_z_wd = PyInteger 0, ve_T = PyInteger 0,
        ve_F = [[0]], ve_g = [[0]], ve_c = [[0]], ve_d = 0, ve_dim = 1\<rparr>
     = Inr \<lparr>ve_z_sigma = PyStr ''0.5'', ve_z_wd = PyStr ''abc'', ve_T = PyStr ''1'',
            ve_F = [[0]], ve_g = [[0]], ve_c = [[0]], ve_d = 0, ve_dim = 1\<rparr>"
    by (simp add: readZPoles_def getitem_def setPoles_def)
  ultimately show ?thesis
    using processPoles_example by blast
qed

end
